theory Spec2Isabelle
  imports Main
begin

section \<open>JavaScript values\<close>

text \<open>
  Values that travel through the client of \<^verbatim>\<open>frontend/src/services/api.js\<close> and the
  \<^verbatim>\<open>AuthProvider\<close>: response bodies, query parameters, tokens and the user object.
  Numbers are integers (page numbers, limits, counts), taken where a JavaScript number
  holds them exactly and prints them in plain digits (below \<open>10\<^sup>2\<^sup>1\<close> in magnitude). An
  object is the list of its own properties in insertion order; JavaScript enumerates
  integer-like keys first, an order that this list does not reproduce.
\<close>

datatype jsval =
    JUndefined
  | JNull
  | JBool bool
  | JNum int
  | JStr string
  | JArr "jsval list"
  | JObj "(string \<times> jsval) list"

text \<open>What a rejected promise carries, apart from an axios error (declared below).\<close>

datatype thrown =
    TypeError jsval string   \<comment> \<open>property \<open>k\<close> read from \<open>undefined\<close> or \<open>null\<close>, or a call of a non-function\<close>
  | SyntaxError string       \<comment> \<open>\<^verbatim>\<open>JSON.parse\<close> of a malformed text\<close>

text \<open>
  \<^verbatim>\<open>v.k\<close> for the property names the source reads (\<^verbatim>\<open>message\<close>, \<^verbatim>\<open>token\<close>,
  \<^verbatim>\<open>refreshToken\<close>, \<^verbatim>\<open>data\<close>, \<^verbatim>\<open>pagination\<close>, \<^verbatim>\<open>role\<close>): none of them is defined on
  the prototypes of strings, numbers, booleans or arrays, so there the result is
  \<^verbatim>\<open>undefined\<close>; on \<^verbatim>\<open>undefined\<close> and \<^verbatim>\<open>null\<close> the access throws.
\<close>

fun get_prop :: "jsval \<Rightarrow> string \<Rightarrow> thrown + jsval" where
  "get_prop JUndefined k = Inl (TypeError JUndefined k)"
| "get_prop JNull k = Inl (TypeError JNull k)"
| "get_prop (JObj ps) k = Inr (case map_of ps k of None \<Rightarrow> JUndefined | Some v \<Rightarrow> v)"
| "get_prop v k = Inr JUndefined"

text \<open>Optional chaining \<^verbatim>\<open>v?.k\<close>.\<close>

fun get_prop_opt :: "jsval \<Rightarrow> string \<Rightarrow> jsval" where
  "get_prop_opt (JObj ps) k = (case map_of ps k of None \<Rightarrow> JUndefined | Some v \<Rightarrow> v)"
| "get_prop_opt v k = JUndefined"

fun truthy :: "jsval \<Rightarrow> bool" where
  "truthy JUndefined = False"
| "truthy JNull = False"
| "truthy (JBool b) = b"
| "truthy (JNum n) = (n \<noteq> 0)"
| "truthy (JStr s) = (s \<noteq> [])"
| "truthy v = True"

text \<open>\<^verbatim>\<open>a || b\<close>.\<close>

definition js_or :: "jsval \<Rightarrow> jsval \<Rightarrow> jsval" where
  "js_or a b = (if truthy a then a else b)"

text \<open>
  \<^verbatim>\<open>a === b\<close>. Exact whenever one operand is a primitive; two objects compare by
  reference in JavaScript, which a value model does not represent.
\<close>

definition strict_eq :: "jsval \<Rightarrow> jsval \<Rightarrow> bool" where
  "strict_eq a b = (a = b)"

subsection \<open>Conversion to strings\<close>

definition digit_char :: "nat \<Rightarrow> char" where
  "digit_char d = ''0123456789'' ! d"

function show_nat :: "nat \<Rightarrow> string" where
  "show_nat n = (if n < 10 then [digit_char n] else show_nat (n div 10) @ [digit_char (n mod 10)])"
  by pat_completeness auto
termination
  by (relation "measure id") auto

declare show_nat.simps [simp del]

definition show_int :: "int \<Rightarrow> string" where
  "show_int i = (if i < 0 then CHR ''-'' # show_nat (nat (- i)) else show_nat (nat i))"

fun join_comma :: "string list \<Rightarrow> string" where
  "join_comma [] = []"
| "join_comma [s] = s"
| "join_comma (s # ss) = s @ '','' @ join_comma ss"

text \<open>
  The string a value turns into inside a template literal or as the value argument of
  \<^verbatim>\<open>localStorage.setItem\<close>. A number prints in plain digits, as JavaScript prints the
  integers of this model.
\<close>

fun js_to_string :: "jsval \<Rightarrow> string" where
  "js_to_string JUndefined = ''undefined''"
| "js_to_string JNull = ''null''"
| "js_to_string (JBool b) = (if b then ''true'' else ''false'')"
| "js_to_string (JNum n) = show_int n"
| "js_to_string (JStr s) = s"
| "js_to_string (JArr xs) =
     join_comma (map (\<lambda>x. if x = JUndefined \<or> x = JNull then [] else js_to_string x) xs)"
| "js_to_string (JObj ps) = ''[object Object]''"

subsection \<open>Object literals\<close>

fun set_prop :: "string \<Rightarrow> jsval \<Rightarrow> (string \<times> jsval) list \<Rightarrow> (string \<times> jsval) list" where
  "set_prop k v [] = [(k, v)]"
| "set_prop k v ((k', v') # ps) = (if k = k' then (k, v) # ps else (k', v') # set_prop k v ps)"

text \<open>The own enumerable properties that \<^verbatim>\<open>...v\<close> copies into an object literal.\<close>

fun own_props :: "jsval \<Rightarrow> (string \<times> jsval) list" where
  "own_props (JObj ps) = ps"
| "own_props (JArr xs) = zip (map show_nat [0..<length xs]) xs"
| "own_props (JStr s) = zip (map show_nat [0..<length s]) (map (\<lambda>c. JStr [c]) s)"
| "own_props v = []"

definition spread :: "(string \<times> jsval) list \<Rightarrow> jsval \<Rightarrow> (string \<times> jsval) list" where
  "spread ps v = fold (\<lambda>(k, x) acc. set_prop k x acc) (own_props v) ps"

text \<open>A default parameter value \<^verbatim>\<open>p = d\<close>: used when the argument is missing, that is \<^verbatim>\<open>undefined\<close>.\<close>

definition default_param :: "jsval \<Rightarrow> jsval \<Rightarrow> jsval" where
  "default_param arg d = (if arg = JUndefined then d else arg)"

section \<open>Requests, responses and the browser state\<close>

text \<open>The request configuration object; \<open>retry\<close> is its \<^verbatim>\<open>_retry\<close> marker.\<close>

record http_request =
  http_method :: string
  url :: string
  params :: jsval
  body :: jsval
  Authorization :: "string option"
  retry :: bool

record http_response =
  status :: nat
  data :: jsval

text \<open>
  An axios error: \<^verbatim>\<open>error.config\<close>, \<^verbatim>\<open>error.response\<close> (absent when no response arrived),
  whether \<^verbatim>\<open>error.request\<close> is set, and \<^verbatim>\<open>error.message\<close>.
\<close>

record axios_error =
  err_config :: http_request
  err_response :: "http_response option"
  err_request :: bool
  err_message :: string

datatype js_error = AxiosError axios_error | Thrown thrown

datatype 'a settled = Fulfilled 'a | Rejected js_error

text \<open>
  What the network does with one request. Two clients send requests: the configured
  instance \<^verbatim>\<open>api\<close> and the global \<^verbatim>\<open>axios\<close> (used for the token refresh only).
\<close>

datatype net_outcome = Responded http_response | NoResponse string | NotSent string

datatype net_event = ApiCall http_request | AxiosCall http_request

text \<open>
  The server and the network are a parameter of every operation: a function from the
  number of requests sent so far and the request to its outcome.
\<close>

type_synonym network = "nat \<Rightarrow> net_event \<Rightarrow> net_outcome"

datatype toast = ToastSuccess string | ToastError jsval

text \<open>
  Everything the client reads and writes: durable storage, the default header of \<^verbatim>\<open>api\<close>,
  \<^verbatim>\<open>window.location.href\<close> (when assigned), the \<^verbatim>\<open>console.error\<close> calls, the requests sent,
  and the React state, navigation and toasts of \<^verbatim>\<open>AuthProvider\<close>.
\<close>

record world =
  localStorage :: "string \<rightharpoonup> string"
  default_Authorization :: "string option"
  location_href :: "string option"
  console_errors :: "(string \<times> jsval) list"
  sent :: "net_event list"
  VITE_API_URL :: "string option"
  user_state :: jsval
  token_state :: jsval
  loading_state :: bool
  navigations :: "string list"
  toasts :: "toast list"

definition getItem :: "world \<Rightarrow> string \<Rightarrow> jsval" where
  "getItem w k = (case localStorage w k of None \<Rightarrow> JNull | Some s \<Rightarrow> JStr s)"

definition setItem :: "string \<Rightarrow> jsval \<Rightarrow> world \<Rightarrow> world" where
  "setItem k v w = w\<lparr>localStorage := (localStorage w)(k \<mapsto> js_to_string v)\<rparr>"

definition removeItem :: "string \<Rightarrow> world \<Rightarrow> world" where
  "removeItem k w = w\<lparr>localStorage := (localStorage w)(k := None)\<rparr>"

definition console_error :: "string \<Rightarrow> jsval \<Rightarrow> world \<Rightarrow> world" where
  "console_error label v w = w\<lparr>console_errors := console_errors w @ [(label, v)]\<rparr>"

definition bearer :: "jsval \<Rightarrow> string" where
  "bearer t = ''Bearer '' @ js_to_string t"

section \<open>The HTTP client core (\<^verbatim>\<open>frontend/src/services/api.js\<close>)\<close>

text \<open>
  \<^verbatim>\<open>api\<close> merges its default headers into a request that has no \<^verbatim>\<open>Authorization\<close> of its own.
\<close>

definition merge_defaults :: "world \<Rightarrow> http_request \<Rightarrow> http_request" where
  "merge_defaults w cfg =
     (case Authorization cfg of
        None \<Rightarrow> cfg\<lparr>Authorization := default_Authorization w\<rparr>
      | Some h \<Rightarrow> cfg)"

text \<open>The request interceptor (lines 13-24): attach the stored token when there is one.\<close>

definition request_interceptor :: "world \<Rightarrow> http_request \<Rightarrow> http_request" where
  "request_interceptor w cfg =
     (let token = getItem w ''token'' in
      if truthy token then cfg\<lparr>Authorization := Some (bearer token)\<rparr> else cfg)"

text \<open>Sending one request: the network answers, and the request is recorded.\<close>

definition dispatch :: "network \<Rightarrow> net_event \<Rightarrow> world \<Rightarrow> net_outcome \<times> world" where
  "dispatch net ev w = (net (length (sent w)) ev, w\<lparr>sent := sent w @ [ev]\<rparr>)"

text \<open>
  How axios settles the promise of a request: a status from 200 to 299 fulfils it, every
  other outcome rejects it with an axios error carrying the request configuration.
\<close>

definition status_error :: "http_request \<Rightarrow> http_response \<Rightarrow> axios_error" where
  "status_error cfg r =
     \<lparr>err_config = cfg, err_response = Some r, err_request = True,
      err_message = ''Request failed with status code '' @ show_nat (status r)\<rparr>"

fun settle :: "http_request \<Rightarrow> net_outcome \<Rightarrow> axios_error + http_response" where
  "settle cfg (Responded r) =
     (if 200 \<le> status r \<and> status r < 300 then Inr r else Inl (status_error cfg r))"
| "settle cfg (NoResponse m) =
     Inl \<lparr>err_config = cfg, err_response = None, err_request = True, err_message = m\<rparr>"
| "settle cfg (NotSent m) =
     Inl \<lparr>err_config = cfg, err_response = None, err_request = False, err_message = m\<rparr>"

text \<open>\<^verbatim>\<open>axios.post(url, data)\<close> on the global instance: no interceptor, no default header.\<close>

definition axios_post :: "network \<Rightarrow> string \<Rightarrow> jsval \<Rightarrow> world \<Rightarrow> (axios_error + http_response) \<times> world" where
  "axios_post net u d w =
     (let cfg = \<lparr>http_method = ''post'', url = u, params = JUndefined, body = d,
                 Authorization = None, retry = False\<rparr>
      in case dispatch net (AxiosCall cfg) w of (out, w1) \<Rightarrow> (settle cfg out, w1))"

text \<open>The label and the fallback message of the \<^verbatim>\<open>switch (status)\<close> (lines 75-93).\<close>

definition status_label :: "nat \<Rightarrow> string" where
  "status_label s =
     (if s = 400 then ''Bad Request:''
      else if s = 403 then ''Forbidden:''
      else if s = 404 then ''Not Found:''
      else if s = 429 then ''Too Many Requests:''
      else if s = 500 then ''Server Error:''
      else ''Error '' @ show_nat s @ '':'')"

definition status_fallback :: "nat \<Rightarrow> string" where
  "status_fallback s =
     (if s = 400 then ''Invalid request''
      else if s = 403 then ''Access denied''
      else if s = 404 then ''Resource not found''
      else if s = 429 then ''Rate limit exceeded''
      else if s = 500 then ''Internal server error''
      else ''An error occurred'')"

text \<open>
  The second half of the response error handler, "Handle other errors" (lines 70-102):
  log by status and reject with the error. \<^verbatim>\<open>data.message\<close> throws when the body is
  \<^verbatim>\<open>null\<close> or \<^verbatim>\<open>undefined\<close>, and then the handler rejects with that \<^verbatim>\<open>TypeError\<close>.
\<close>

definition handle_other_errors :: "axios_error \<Rightarrow> world \<Rightarrow> http_response settled \<times> world" where
  "handle_other_errors error w =
     (case err_response error of
        Some r \<Rightarrow>
          (case get_prop (data r) ''message'' of
             Inl t \<Rightarrow> (Rejected (Thrown t), w)
           | Inr m \<Rightarrow>
               (Rejected (AxiosError error),
                console_error (status_label (status r)) (js_or m (JStr (status_fallback (status r)))) w))
      | None \<Rightarrow>
          if err_request error then
            (Rejected (AxiosError error),
             console_error ''Network Error:''
               (JStr ''No response from server. Please check your connection.'') w)
          else
            (Rejected (AxiosError error),
             console_error ''Request Error:'' (JStr (err_message error)) w))"

text \<open>The \<^verbatim>\<open>catch (refreshError)\<close> block (lines 60-67).\<close>

definition refresh_failed :: "js_error \<Rightarrow> world \<Rightarrow> http_response settled \<times> world" where
  "refresh_failed refreshError w =
     (Rejected refreshError,
      (removeItem ''user'' (removeItem ''refreshToken'' (removeItem ''token'' w)))
        \<lparr>location_href := Some ''/login''\<rparr>)"

definition refresh_url :: "world \<Rightarrow> string" where
  "refresh_url w =
     (case VITE_API_URL w of None \<Rightarrow> ''undefined'' | Some u \<Rightarrow> u) @ ''/auth/refresh-token''"

text \<open>The interceptors and axios keep the \<^verbatim>\<open>_retry\<close> marker and the configuration.\<close>

lemma retry_request_interceptor: "retry (request_interceptor w cfg) = retry cfg"
  by (simp add: request_interceptor_def Let_def)

lemma retry_merge_defaults: "retry (merge_defaults w cfg) = retry cfg"
  by (simp add: merge_defaults_def split: option.splits)

lemma settle_config: "settle cfg out = Inl e \<Longrightarrow> err_config e = cfg"
  by (cases out) (auto simp: status_error_def split: if_splits)

text \<open>
  \<^verbatim>\<open>api(config)\<close> and the response error handler (lines 31-103) call each other: the handler
  re-issues the original request after a successful refresh. The fulfilled handler
  (lines 28-30) returns the response unchanged.
\<close>

function api_request :: "network \<Rightarrow> http_request \<Rightarrow> world \<Rightarrow> http_response settled \<times> world"
  and response_rejected :: "network \<Rightarrow> axios_error \<Rightarrow> world \<Rightarrow> http_response settled \<times> world"
where
  "api_request net config w =
     (let cfg = request_interceptor w (merge_defaults w config) in
      case dispatch net (ApiCall cfg) w of
        (out, w1) \<Rightarrow>
          (case settle cfg out of
             Inr response \<Rightarrow> (Fulfilled response, w1)
           | Inl error \<Rightarrow> response_rejected net error w1))"
| "response_rejected net error w =
     (if map_option status (err_response error) = Some 401 \<and> \<not> retry (err_config error) then
        (let originalRequest = (err_config error)\<lparr>retry := True\<rparr>;
             error1 = error\<lparr>err_config := originalRequest\<rparr>;
             refreshToken = getItem w ''refreshToken''
         in if truthy refreshToken then
              (case axios_post net (refresh_url w) (JObj [(''refreshToken'', refreshToken)]) w of
                 (Inl refreshError, w1) \<Rightarrow> refresh_failed (AxiosError refreshError) w1
               | (Inr response, w1) \<Rightarrow>
                   (case get_prop (data response) ''token'' of
                      Inl t \<Rightarrow> refresh_failed (Thrown t) w1
                    | Inr token \<Rightarrow>
                        (case get_prop (data response) ''refreshToken'' of
                           Inl t \<Rightarrow> refresh_failed (Thrown t) w1
                         | Inr newRefreshToken \<Rightarrow>
                             (let w2 = setItem ''token'' token w1;
                                  w3 = setItem ''refreshToken'' newRefreshToken w2;
                                  w4 = w3\<lparr>default_Authorization := Some (bearer token)\<rparr>
                              in api_request net
                                   (originalRequest\<lparr>Authorization := Some (bearer token)\<rparr>) w4))))
            else handle_other_errors error1 w)
      else handle_other_errors error w)"
  by pat_completeness auto

termination
  apply (relation "measure (\<lambda>x. case x of
          Inl (net, c, w) \<Rightarrow> (if retry c then 1 else 3)
        | Inr (net, e, w) \<Rightarrow> (if retry (err_config e) then 0 else 2))")
    apply simp
   apply (auto dest!: settle_config simp: retry_request_interceptor retry_merge_defaults)
  done

declare api_request.simps [simp del] response_rejected.simps [simp del]

text \<open>\<^verbatim>\<open>api.get(url, { params })\<close> and \<^verbatim>\<open>api.post(url, data)\<close>.\<close>

definition api_get :: "network \<Rightarrow> string \<Rightarrow> jsval \<Rightarrow> world \<Rightarrow> http_response settled \<times> world" where
  "api_get net u ps w =
     api_request net \<lparr>http_method = ''get'', url = u, params = ps, body = JUndefined,
                      Authorization = None, retry = False\<rparr> w"

definition api_post :: "network \<Rightarrow> string \<Rightarrow> jsval \<Rightarrow> world \<Rightarrow> http_response settled \<times> world" where
  "api_post net u d w =
     api_request net \<lparr>http_method = ''post'', url = u, params = JUndefined, body = d,
                      Authorization = None, retry = False\<rparr> w"

text \<open>\<^verbatim>\<open>paginatedRequest(endpoint, params = {})\<close> (lines 120-126).\<close>

definition paginatedRequest :: "network \<Rightarrow> string \<Rightarrow> jsval \<Rightarrow> world \<Rightarrow> jsval settled \<times> world" where
  "paginatedRequest net endpoint params0 w =
     (let ps = default_param params0 (JObj []) in
      case api_get net endpoint ps w of
        (Rejected e, w1) \<Rightarrow> (Rejected e, w1)
      | (Fulfilled response, w1) \<Rightarrow>
          (case get_prop (data response) ''data'' of
             Inl t \<Rightarrow> (Rejected (Thrown t), w1)
           | Inr d \<Rightarrow>
               (case get_prop (data response) ''pagination'' of
                  Inl t \<Rightarrow> (Rejected (Thrown t), w1)
                | Inr pg \<Rightarrow> (Fulfilled (JObj [(''data'', d), (''pagination'', pg)]), w1))))"

text \<open>\<^verbatim>\<open>infiniteScrollRequest(endpoint, page, limit = 20, params = {})\<close> (lines 129-131).\<close>

definition infiniteScrollRequest ::
  "network \<Rightarrow> string \<Rightarrow> jsval \<Rightarrow> jsval \<Rightarrow> jsval \<Rightarrow> world \<Rightarrow> jsval settled \<times> world" where
  "infiniteScrollRequest net endpoint page limit0 params0 w =
     (let limit = default_param limit0 (JNum 20);
          ps = default_param params0 (JObj [])
      in paginatedRequest net endpoint
           (JObj (spread (set_prop ''limit'' limit (set_prop ''page'' page [])) ps)) w)"

section \<open>The session holder (\<^verbatim>\<open>AuthProvider\<close>)\<close>

text \<open>
  The state at mount (lines 233-235): no user, loading, and the token state initialised
  from \<^verbatim>\<open>localStorage.getItem('token')\<close>.
\<close>

definition AuthProvider_mount :: "world \<Rightarrow> world" where
  "AuthProvider_mount w =
     w\<lparr>user_state := JNull, loading_state := True, token_state := getItem w ''token''\<rparr>"

text \<open>The \<^verbatim>\<open>catch\<close> block of \<^verbatim>\<open>initializeAuth\<close> (lines 254-259).\<close>

definition initializeAuth_catch :: "world \<Rightarrow> world" where
  "initializeAuth_catch w =
     (removeItem ''user'' (removeItem ''token'' w))\<lparr>default_Authorization := None\<rparr>"

text \<open>
  \<^verbatim>\<open>initializeAuth\<close> (lines 240-263). \<^verbatim>\<open>JSON.parse\<close> is the platform's and a parameter here.
\<close>

definition initializeAuth ::
  "network \<Rightarrow> (string \<Rightarrow> thrown + jsval) \<Rightarrow> world \<Rightarrow> jsval settled \<times> world" where
  "initializeAuth net JSON_parse w =
     (let storedToken = getItem w ''token'';
          storedUser = getItem w ''user''
      in if truthy storedToken \<and> truthy storedUser then
           (let w1 = w\<lparr>default_Authorization := Some (bearer storedToken)\<rparr> in
            case api_get net ''/auth/verify'' JUndefined w1 of
              (Rejected error, w2) \<Rightarrow>
                (Fulfilled JUndefined, (initializeAuth_catch w2)\<lparr>loading_state := False\<rparr>)
            | (Fulfilled response, w2) \<Rightarrow>
                (let w3 = w2\<lparr>token_state := storedToken\<rparr> in
                 case JSON_parse (js_to_string storedUser) of
                   Inl t \<Rightarrow> (Fulfilled JUndefined, (initializeAuth_catch w3)\<lparr>loading_state := False\<rparr>)
                 | Inr u \<Rightarrow> (Fulfilled JUndefined, w3\<lparr>user_state := u, loading_state := False\<rparr>)))
         else (Fulfilled JUndefined, w\<lparr>loading_state := False\<rparr>))"

text \<open>\<^verbatim>\<open>logout\<close> (lines 330-352): the outcome of the server call is ignored.\<close>

definition logout :: "network \<Rightarrow> world \<Rightarrow> jsval settled \<times> world" where
  "logout net w =
     (case api_post net ''/auth/logout'' JUndefined w of
        (r, w1) \<Rightarrow>
          (Fulfilled JUndefined,
           (removeItem ''user'' (removeItem ''token'' w1))
             \<lparr>default_Authorization := None,
              token_state := JNull,
              user_state := JNull,
              navigations := navigations w1 @ [''/login''],
              toasts := toasts w1 @ [ToastSuccess ''Logged out successfully'']\<rparr>))"

text \<open>\<^verbatim>\<open>hasRole\<close> (lines 362-364): \<^verbatim>\<open>user?.role === role\<close>.\<close>

definition hasRole :: "world \<Rightarrow> jsval \<Rightarrow> bool" where
  "hasRole w role = strict_eq (get_prop_opt (user_state w) ''role'') role"

fun is_substring :: "string \<Rightarrow> string \<Rightarrow> bool" where
  "is_substring p [] = (p = [])"
| "is_substring p (c # s) = (take (length p) (c # s) = p \<or> is_substring p s)"

text \<open>
  \<^verbatim>\<open>roles.includes(x)\<close>: membership in an array, a substring test on a string, and a
  \<^verbatim>\<open>TypeError\<close> on every other value.
\<close>

fun js_includes :: "jsval \<Rightarrow> jsval \<Rightarrow> thrown + bool" where
  "js_includes (JArr xs) x = Inr (list_ex (\<lambda>y. strict_eq y x) xs)"
| "js_includes (JStr s) x = Inr (is_substring (js_to_string x) s)"
| "js_includes v x = Inl (TypeError v ''includes'')"

text \<open>\<^verbatim>\<open>hasAnyRole\<close> (lines 367-369): \<^verbatim>\<open>roles.includes(user?.role)\<close>.\<close>

definition hasAnyRole :: "world \<Rightarrow> jsval \<Rightarrow> thrown + bool" where
  "hasAnyRole w roles = js_includes roles (get_prop_opt (user_state w) ''role'')"

section \<open>Observations on a run\<close>

text \<open>The request that leaves for the network when \<^verbatim>\<open>api(config)\<close> is called in \<open>w\<close>.\<close>

definition outgoing :: "world \<Rightarrow> http_request \<Rightarrow> http_request" where
  "outgoing w config = request_interceptor w (merge_defaults w config)"

text \<open>The refresh request that the error handler posts in \<open>w\<close> (lines 42-45).\<close>

definition refresh_request :: "world \<Rightarrow> http_request" where
  "refresh_request w =
     \<lparr>http_method = ''post'', url = refresh_url w, params = JUndefined,
      body = JObj [(''refreshToken'', getItem w ''refreshToken'')],
      Authorization = None, retry = False\<rparr>"

fun is_refresh :: "net_event \<Rightarrow> bool" where
  "is_refresh (AxiosCall c) = True"
| "is_refresh (ApiCall c) = False"

definition refresh_attempts :: "world \<Rightarrow> nat" where
  "refresh_attempts w = length (filter is_refresh (sent w))"

definition api_sends :: "world \<Rightarrow> nat" where
  "api_sends w = length (filter (\<lambda>ev. \<not> is_refresh ev) (sent w))"

text \<open>The world after a granted refresh (lines 47-55), and the request that is then re-issued.\<close>

definition refreshed :: "world \<Rightarrow> http_request \<Rightarrow> http_response \<Rightarrow> world" where
  "refreshed w config response =
     w\<lparr>sent := sent w @ [ApiCall (outgoing w config), AxiosCall (refresh_request w)],
       localStorage := (localStorage w)
         (''token'' \<mapsto> js_to_string (get_prop_opt (data response) ''token''),
          ''refreshToken'' \<mapsto> js_to_string (get_prop_opt (data response) ''refreshToken'')),
       default_Authorization := Some (bearer (get_prop_opt (data response) ''token''))\<rparr>"

definition reissued :: "world \<Rightarrow> http_request \<Rightarrow> http_response \<Rightarrow> http_request" where
  "reissued w config response =
     (outgoing w config)
       \<lparr>retry := True, Authorization := Some (bearer (get_prop_opt (data response) ''token''))\<rparr>"

text \<open>What the handler leaves untouched: the state of \<^verbatim>\<open>AuthProvider\<close> and the environment.\<close>

definition app_frame :: "world \<Rightarrow> world \<Rightarrow> bool" where
  "app_frame w w' \<longleftrightarrow>
     user_state w' = user_state w \<and> token_state w' = token_state w \<and>
     loading_state w' = loading_state w \<and> navigations w' = navigations w \<and>
     toasts w' = toasts w \<and> VITE_API_URL w' = VITE_API_URL w"

subsection \<open>Example browsers and servers\<close>

definition fresh_browser :: world where
  "fresh_browser =
     \<lparr>localStorage = Map.empty, default_Authorization = None, location_href = None,
      console_errors = [], sent = [], VITE_API_URL = Some ''http://localhost:3001/api'',
      user_state = JNull, token_state = JNull, loading_state = True,
      navigations = [], toasts = []\<rparr>"

text \<open>A browser holding a persisted session: token, refresh token and user.\<close>

definition returning_browser :: world where
  "returning_browser =
     fresh_browser\<lparr>localStorage :=
       [''token'' \<mapsto> ''t0'', ''refreshToken'' \<mapsto> ''r0'', ''user'' \<mapsto> ''{role:ADMIN}'']\<rparr>"

text \<open>The same browser once \<^verbatim>\<open>AuthProvider\<close> holds the session of an administrator.\<close>

definition signed_in_browser :: world where
  "signed_in_browser =
     returning_browser
       \<lparr>default_Authorization := Some ''Bearer t0'',
        user_state := JObj [(''id'', JNum 7), (''role'', JStr ''ADMIN'')],
        token_state := JStr ''t0'',
        loading_state := False\<rparr>"

text \<open>The same without a refresh token.\<close>

definition browser_without_refresh_token :: world where
  "browser_without_refresh_token =
     fresh_browser\<lparr>localStorage := [''token'' \<mapsto> ''t0'', ''user'' \<mapsto> ''{role:ADMIN}'']\<rparr>"

text \<open>A browser in which an administrator is signed in.\<close>

definition admin_session :: world where
  "admin_session =
     fresh_browser\<lparr>user_state := JObj [(''id'', JNum 7), (''role'', JStr ''ADMIN'')]\<rparr>"

text \<open>The request of \<^verbatim>\<open>adminAPI.getUsers()\<close>.\<close>

definition get_users :: http_request where
  "get_users =
     \<lparr>http_method = ''get'', url = ''/admin/users'', params = JUndefined, body = JUndefined,
      Authorization = None, retry = False\<rparr>"

text \<open>The requests of \<^verbatim>\<open>logout\<close> and of \<^verbatim>\<open>initializeAuth\<close>.\<close>

definition logout_request :: http_request where
  "logout_request =
     \<lparr>http_method = ''post'', url = ''/auth/logout'', params = JUndefined, body = JUndefined,
      Authorization = None, retry = False\<rparr>"

definition verify_request :: http_request where
  "verify_request =
     \<lparr>http_method = ''get'', url = ''/auth/verify'', params = JUndefined, body = JUndefined,
      Authorization = None, retry = False\<rparr>"

fun is_401 :: "net_outcome \<Rightarrow> bool" where
  "is_401 (Responded r) = (status r = 401)"
| "is_401 out = False"

text \<open>
  What becomes of the token refresh during one call of \<^verbatim>\<open>api(config)\<close> in \<open>w\<close>, read off
  the answers of the network. The handler posts the refresh when the request is not yet
  marked as retried, its answer is a 401 and a refresh token is stored (lines 35-41). The
  refresh fails when its request is rejected or its response has no body to take the tokens
  from (the \<^verbatim>\<open>catch\<close> of lines 60-67), and is granted otherwise.
\<close>

datatype refresh_result = NotAttempted | Failed | Granted http_response

definition refresh_result_of :: "network \<Rightarrow> world \<Rightarrow> http_request \<Rightarrow> refresh_result" where
  "refresh_result_of net w config =
     (if \<not> retry config \<and> is_401 (net (length (sent w)) (ApiCall (outgoing w config))) \<and>
         truthy (getItem w ''refreshToken'')
      then (case settle (refresh_request w)
                   (net (Suc (length (sent w))) (AxiosCall (refresh_request w))) of
              Inl refreshError \<Rightarrow> Failed
            | Inr response \<Rightarrow>
                if data response = JNull \<or> data response = JUndefined then Failed
                else Granted response)
      else NotAttempted)"

text \<open>A stand-in for \<^verbatim>\<open>JSON.parse\<close> that reads the stored example user and nothing else.\<close>

definition example_parse :: "string \<Rightarrow> thrown + jsval" where
  "example_parse s =
     (if s = ''{role:ADMIN}'' then Inr (JObj [(''role'', JStr ''ADMIN'')])
      else Inl (SyntaxError s))"

definition unauthorized :: http_response where
  "unauthorized = \<lparr>status = 401, data = JObj [(''message'', JStr ''Token expired'')]\<rparr>"

text \<open>A server that answers every call of \<^verbatim>\<open>api\<close> with 401 and grants every refresh.\<close>

definition granted :: http_response where
  "granted = \<lparr>status = 200, data = JObj [(''token'', JStr ''t1''), (''refreshToken'', JStr ''r1'')]\<rparr>"

definition server_expiring :: network where
  "server_expiring n ev =
     (case ev of ApiCall c \<Rightarrow> Responded unauthorized | AxiosCall c \<Rightarrow> Responded granted)"

text \<open>A server that answers every call of \<^verbatim>\<open>api\<close> with 401 and the refresh with an empty 200.\<close>

definition server_empty_refresh :: network where
  "server_empty_refresh n ev =
     (case ev of
        ApiCall c \<Rightarrow> Responded unauthorized
      | AxiosCall c \<Rightarrow> Responded \<lparr>status = 200, data = JNull\<rparr>)"

text \<open>A server that answers every call with 401, the refresh included.\<close>

definition server_revoked :: network where
  "server_revoked n ev = Responded unauthorized"

text \<open>A server that answers every call with the same response.\<close>

definition server_answering :: "http_response \<Rightarrow> network" where
  "server_answering r n ev = Responded r"

text \<open>A server that answers every call with 403, and one that cannot be reached.\<close>

definition server_forbidding :: network where
  "server_forbidding n ev =
     Responded \<lparr>status = 403, data = JObj [(''message'', JStr ''Access denied'')]\<rparr>"

definition server_unreachable :: network where
  "server_unreachable n ev = NoResponse ''Network Error''"

text \<open>The paginated endpoint of the specification's example.\<close>

definition example_page :: jsval where
  "example_page =
     JObj [(''data'', JArr [JObj [(''id'', JNum 1)], JObj [(''id'', JNum 2)]]),
           (''pagination'',
            JObj [(''page'', JNum 1), (''limit'', JNum 20), (''total'', JNum 2), (''pages'', JNum 1)])]"

definition server_listing :: network where
  "server_listing n ev = Responded \<lparr>status = 200, data = example_page\<rparr>"

subsection \<open>The infinite-scroll helper as the specification words it\<close>

text \<open>An argument that the caller passes, or omits.\<close>

fun passed :: "jsval option \<Rightarrow> jsval" where
  "passed None = JUndefined"
| "passed (Some v) = v"

text \<open>
  \<^verbatim>\<open>paginatedRequest(endpoint, { page, limit, ...params })\<close>, with \<open>limit\<close> defaulting to 20
  and \<open>params\<close> to the empty object when omitted.
\<close>

definition infiniteScrollRequest_spec ::
  "network \<Rightarrow> string \<Rightarrow> jsval \<Rightarrow> jsval option \<Rightarrow> (string \<times> jsval) list option \<Rightarrow> world
   \<Rightarrow> jsval settled \<times> world" where
  "infiniteScrollRequest_spec net endpoint page limit ps w =
     paginatedRequest net endpoint
       (JObj (fold (\<lambda>(k, v). set_prop k v)
                (case ps of None \<Rightarrow> [] | Some props \<Rightarrow> props)
                [(''page'', page), (''limit'', case limit of None \<Rightarrow> JNum 20 | Some l \<Rightarrow> l)])) w"

section \<open>Stepping through the response error handler\<close>

lemma response_rejected_passes:
  "\<not> (map_option status (err_response error) = Some 401 \<and> \<not> retry (err_config error)) \<Longrightarrow>
   response_rejected net error w = handle_other_errors error w"
  by (subst response_rejected.simps) (simp only: if_False)

lemma api_request_step:
  "api_request net config w =
     (case settle (outgoing w config) (net (length (sent w)) (ApiCall (outgoing w config))) of
        Inr response \<Rightarrow> (Fulfilled response, w\<lparr>sent := sent w @ [ApiCall (outgoing w config)]\<rparr>)
      | Inl error \<Rightarrow>
          response_rejected net error (w\<lparr>sent := sent w @ [ApiCall (outgoing w config)]\<rparr>))"
  unfolding outgoing_def
  by (simp add: api_request.simps [of net config w] dispatch_def Let_def)

lemma retry_outgoing: "retry (outgoing w config) = retry config"
  by (simp add: outgoing_def retry_request_interceptor retry_merge_defaults)

lemma api_request_retried:
  "retry config \<Longrightarrow>
   api_request net config w =
     (case settle (outgoing w config) (net (length (sent w)) (ApiCall (outgoing w config))) of
        Inr response \<Rightarrow> (Fulfilled response, w\<lparr>sent := sent w @ [ApiCall (outgoing w config)]\<rparr>)
      | Inl error \<Rightarrow>
          handle_other_errors error (w\<lparr>sent := sent w @ [ApiCall (outgoing w config)]\<rparr>))"
  by (auto simp: api_request_step [of net config w] response_rejected_passes retry_outgoing
      split: sum.splits dest!: settle_config)

lemma axios_post_refresh:
  "axios_post net (refresh_url w) (JObj [(''refreshToken'', getItem w ''refreshToken'')]) w =
     (settle (refresh_request w) (net (length (sent w)) (AxiosCall (refresh_request w))),
      w\<lparr>sent := sent w @ [AxiosCall (refresh_request w)]\<rparr>)"
  by (simp add: axios_post_def refresh_request_def dispatch_def Let_def)

lemma response_rejected_unauthorized:
  assumes "err_response error = Some r" and "status r = 401" and "\<not> retry (err_config error)"
  shows "response_rejected net error w =
     (if truthy (getItem w ''refreshToken'') then
        (case settle (refresh_request w) (net (length (sent w)) (AxiosCall (refresh_request w))) of
           Inl refreshError \<Rightarrow>
             refresh_failed (AxiosError refreshError)
               (w\<lparr>sent := sent w @ [AxiosCall (refresh_request w)]\<rparr>)
         | Inr response \<Rightarrow>
             (case get_prop (data response) ''token'' of
                Inl t \<Rightarrow> refresh_failed (Thrown t) (w\<lparr>sent := sent w @ [AxiosCall (refresh_request w)]\<rparr>)
              | Inr token \<Rightarrow>
                  (case get_prop (data response) ''refreshToken'' of
                     Inl t \<Rightarrow>
                       refresh_failed (Thrown t) (w\<lparr>sent := sent w @ [AxiosCall (refresh_request w)]\<rparr>)
                   | Inr newRefreshToken \<Rightarrow>
                       api_request net
                         ((err_config error)\<lparr>retry := True, Authorization := Some (bearer token)\<rparr>)
                         ((setItem ''refreshToken'' newRefreshToken
                            (setItem ''token'' token
                              (w\<lparr>sent := sent w @ [AxiosCall (refresh_request w)]\<rparr>)))
                          \<lparr>default_Authorization := Some (bearer token)\<rparr>))))
      else handle_other_errors (error\<lparr>err_config := (err_config error)\<lparr>retry := True\<rparr>\<rparr>) w)"
  using assms
  by (subst response_rejected.simps)
     (simp add: axios_post_refresh Let_def split: sum.splits)

lemma get_prop_defined:
  "v \<noteq> JNull \<Longrightarrow> v \<noteq> JUndefined \<Longrightarrow> get_prop v k = Inr (get_prop_opt v k)"
  by (cases v) simp_all

lemma get_prop_nullish:
  "v = JNull \<or> v = JUndefined \<Longrightarrow> get_prop v k = Inl (TypeError v k)"
  by auto

lemma getItem_sent [simp]: "getItem (w\<lparr>sent := s\<rparr>) k = getItem w k"
  by (simp add: getItem_def)

lemma refresh_request_sent [simp]: "refresh_request (w\<lparr>sent := s\<rparr>) = refresh_request w"
  by (simp add: refresh_request_def refresh_url_def)

lemma api_request_passes:
  assumes "settle (outgoing w config) (net (length (sent w)) (ApiCall (outgoing w config))) = Inl e"
    and "map_option status (err_response e) \<noteq> Some 401 \<or> retry config"
  shows "api_request net config w =
           handle_other_errors e (w\<lparr>sent := sent w @ [ApiCall (outgoing w config)]\<rparr>)"
proof -
  have "err_config e = outgoing w config"
    using assms(1) by (rule settle_config)
  then have "\<not> (map_option status (err_response e) = Some 401 \<and> \<not> retry (err_config e))"
    using assms(2) by (auto simp: retry_outgoing)
  then show ?thesis
    using assms(1) by (simp add: api_request_step response_rejected_passes)
qed

lemma api_request_unauthorized:
  assumes "\<not> retry config"
    and "net (length (sent w)) (ApiCall (outgoing w config)) = Responded r"
    and "status r = 401"
  shows "api_request net config w =
     (if truthy (getItem w ''refreshToken'') then
        (case settle (refresh_request w)
                (net (Suc (length (sent w))) (AxiosCall (refresh_request w))) of
           Inl refreshError \<Rightarrow>
             refresh_failed (AxiosError refreshError)
               (w\<lparr>sent := sent w @ [ApiCall (outgoing w config), AxiosCall (refresh_request w)]\<rparr>)
         | Inr response \<Rightarrow>
             (case get_prop (data response) ''token'' of
                Inl t \<Rightarrow>
                  refresh_failed (Thrown t)
                    (w\<lparr>sent := sent w @ [ApiCall (outgoing w config), AxiosCall (refresh_request w)]\<rparr>)
              | Inr token \<Rightarrow>
                  (case get_prop (data response) ''refreshToken'' of
                     Inl t \<Rightarrow>
                       refresh_failed (Thrown t)
                         (w\<lparr>sent := sent w @ [ApiCall (outgoing w config), AxiosCall (refresh_request w)]\<rparr>)
                   | Inr newRefreshToken \<Rightarrow>
                       api_request net
                         ((outgoing w config)\<lparr>retry := True, Authorization := Some (bearer token)\<rparr>)
                         ((setItem ''refreshToken'' newRefreshToken
                            (setItem ''token'' token
                              (w\<lparr>sent := sent w @ [ApiCall (outgoing w config),
                                                     AxiosCall (refresh_request w)]\<rparr>)))
                          \<lparr>default_Authorization := Some (bearer token)\<rparr>))))
      else handle_other_errors (status_error ((outgoing w config)\<lparr>retry := True\<rparr>) r)
             (w\<lparr>sent := sent w @ [ApiCall (outgoing w config)]\<rparr>))"
proof -
  have s: "settle (outgoing w config) (net (length (sent w)) (ApiCall (outgoing w config))) =
             Inl (status_error (outgoing w config) r)"
    using assms(2,3) by simp
  have e: "err_response (status_error (outgoing w config) r) = Some r"
          "\<not> retry (err_config (status_error (outgoing w config) r))"
    using assms(1) by (simp_all add: status_error_def retry_outgoing)
  show ?thesis
    by (simp add: api_request_step s response_rejected_unauthorized [OF e(1) assms(3) e(2)])
       (auto simp: status_error_def split: sum.splits)
qed

lemma handle_other_errors_sent:
  "sent (snd (handle_other_errors e w)) = sent w"
  by (simp add: handle_other_errors_def console_error_def split: option.splits sum.splits)

lemma handle_other_errors_rejects:
  "\<exists>x. fst (handle_other_errors e w) = Rejected x"
  by (simp add: handle_other_errors_def split: option.splits sum.splits)

lemma handle_other_errors_status:
  assumes "data r \<noteq> JNull" and "data r \<noteq> JUndefined"
  shows "handle_other_errors (status_error cfg r) w =
           (Rejected (AxiosError (status_error cfg r)),
            console_error (status_label (status r))
              (js_or (get_prop_opt (data r) ''message'') (JStr (status_fallback (status r)))) w)"
  using assms by (simp add: handle_other_errors_def status_error_def get_prop_defined)

lemma refresh_failed_eq:
  "refresh_failed e w =
     (Rejected e,
      w\<lparr>localStorage := (localStorage w)(''token'' := None, ''refreshToken'' := None, ''user'' := None),
        location_href := Some ''/login''\<rparr>)"
  by (simp add: refresh_failed_def removeItem_def)

lemma api_request_refresh_rejected:
  assumes "\<not> retry config"
    and "net (length (sent w)) (ApiCall (outgoing w config)) = Responded r"
    and "status r = 401"
    and "truthy (getItem w ''refreshToken'')"
    and "settle (refresh_request w) (net (Suc (length (sent w))) (AxiosCall (refresh_request w))) =
           Inl refreshError"
  shows "api_request net config w =
           (Rejected (AxiosError refreshError),
            w\<lparr>sent := sent w @ [ApiCall (outgoing w config), AxiosCall (refresh_request w)],
              localStorage :=
                (localStorage w)(''token'' := None, ''refreshToken'' := None, ''user'' := None),
              location_href := Some ''/login''\<rparr>)"
  by (simp add: api_request_unauthorized [where net = net, OF assms(1,2,3)] assms(4,5)
        refresh_failed_eq)

lemma api_request_refresh_unusable:
  assumes "\<not> retry config"
    and "net (length (sent w)) (ApiCall (outgoing w config)) = Responded r"
    and "status r = 401"
    and "truthy (getItem w ''refreshToken'')"
    and "settle (refresh_request w) (net (Suc (length (sent w))) (AxiosCall (refresh_request w))) =
           Inr response"
    and "data response = JNull \<or> data response = JUndefined"
  shows "api_request net config w =
           (Rejected (Thrown (TypeError (data response) ''token'')),
            w\<lparr>sent := sent w @ [ApiCall (outgoing w config), AxiosCall (refresh_request w)],
              localStorage :=
                (localStorage w)(''token'' := None, ''refreshToken'' := None, ''user'' := None),
              location_href := Some ''/login''\<rparr>)"
  using assms(6)
  by (auto simp add: api_request_unauthorized [where net = net, OF assms(1,2,3)] assms(4,5)
        refresh_failed_eq)

lemma api_request_refreshed:
  assumes "\<not> retry config"
    and "net (length (sent w)) (ApiCall (outgoing w config)) = Responded r"
    and "status r = 401"
    and "truthy (getItem w ''refreshToken'')"
    and "settle (refresh_request w) (net (Suc (length (sent w))) (AxiosCall (refresh_request w))) =
           Inr response"
    and "data response \<noteq> JNull" and "data response \<noteq> JUndefined"
  shows "api_request net config w =
           api_request net (reissued w config response) (refreshed w config response)"
  by (simp add: api_request_unauthorized [where net = net, OF assms(1,2,3)] assms(4,5)
        get_prop_defined [OF assms(6,7)] reissued_def refreshed_def setItem_def)

lemma outgoing_reissued:
  "outgoing (refreshed w config response) (reissued w config response) =
     reissued w config response"
  by (auto simp: outgoing_def merge_defaults_def request_interceptor_def reissued_def
        refreshed_def getItem_def bearer_def Let_def)

lemma retry_reissued: "retry (reissued w config response)"
  by (simp add: reissued_def)

lemma api_request_retried_sent:
  "retry config \<Longrightarrow>
   sent (snd (api_request net config w)) = sent w @ [ApiCall (outgoing w config)]"
  by (simp add: api_request_retried handle_other_errors_sent split: sum.splits)

lemma api_request_retried_unauthorized:
  assumes "retry config"
    and "net (length (sent w)) (ApiCall (outgoing w config)) = Responded r"
    and "status r = 401"
    and "data r \<noteq> JNull" and "data r \<noteq> JUndefined"
  shows "api_request net config w =
           (Rejected (AxiosError (status_error (outgoing w config) r)),
            console_error (status_label 401)
              (js_or (get_prop_opt (data r) ''message'') (JStr (status_fallback 401)))
              (w\<lparr>sent := sent w @ [ApiCall (outgoing w config)]\<rparr>))"
  using assms
  by (simp add: api_request_retried handle_other_errors_status)

lemma outgoing_returning:
  "outgoing returning_browser get_users = get_users\<lparr>Authorization := Some ''Bearer t0''\<rparr>"
  by (simp add: outgoing_def request_interceptor_def merge_defaults_def returning_browser_def
      fresh_browser_def get_users_def getItem_def bearer_def)

lemma getItem_returning:
  "getItem returning_browser ''refreshToken'' = JStr ''r0''"
  by (simp add: returning_browser_def fresh_browser_def getItem_def)

lemma unauthorized_simps:
  "status unauthorized = 401" "data unauthorized = JObj [(''message'', JStr ''Token expired'')]"
  by (simp_all add: unauthorized_def)

lemma granted_simps:
  "status granted = 200"
  "data granted = JObj [(''token'', JStr ''t1''), (''refreshToken'', JStr ''r1'')]"
  by (simp_all add: granted_def)

lemma get_users_simps: "\<not> retry get_users" "Authorization get_users = None"
  by (simp_all add: get_users_def)

lemma status_label_401: "status_label 401 = ''Error 401:''"
  by (simp add: status_label_def show_nat.simps digit_char_def)

lemma reissued_returning:
  "reissued returning_browser get_users granted =
     get_users\<lparr>retry := True, Authorization := Some ''Bearer t1''\<rparr>"
  by (simp add: reissued_def outgoing_returning granted_simps bearer_def)

lemma expiring_run:
  "api_request server_expiring get_users returning_browser =
     (Rejected (AxiosError (status_error (reissued returning_browser get_users granted) unauthorized)),
      console_error ''Error 401:'' (JStr ''Token expired'')
        ((refreshed returning_browser get_users granted)
           \<lparr>sent := sent (refreshed returning_browser get_users granted) @
                     [ApiCall (reissued returning_browser get_users granted)]\<rparr>))"
proof -
  have "api_request server_expiring get_users returning_browser =
          api_request server_expiring (reissued returning_browser get_users granted)
            (refreshed returning_browser get_users granted)"
    by (rule api_request_refreshed [where r = unauthorized])
       (simp_all add: server_expiring_def unauthorized_simps granted_simps getItem_returning
          get_users_simps)
  also have "\<dots> =
     (Rejected (AxiosError (status_error (reissued returning_browser get_users granted) unauthorized)),
      console_error ''Error 401:'' (JStr ''Token expired'')
        ((refreshed returning_browser get_users granted)
           \<lparr>sent := sent (refreshed returning_browser get_users granted) @
                     [ApiCall (reissued returning_browser get_users granted)]\<rparr>))"
    using api_request_retried_unauthorized
            [where net = server_expiring and config = "reissued returning_browser get_users granted"
               and w = "refreshed returning_browser get_users granted" and r = unauthorized]
    by (simp add: retry_reissued outgoing_reissued server_expiring_def unauthorized_simps
          status_label_401 js_or_def)
  finally show ?thesis .
qed

lemma without_refresh_token_simps:
  "outgoing browser_without_refresh_token get_users =
     get_users\<lparr>Authorization := Some ''Bearer t0''\<rparr>"
  "\<not> truthy (getItem browser_without_refresh_token ''refreshToken'')"
  "sent browser_without_refresh_token = []"
  by (simp_all add: outgoing_def request_interceptor_def merge_defaults_def
      browser_without_refresh_token_def fresh_browser_def get_users_def getItem_def bearer_def)

lemma signed_in_simps:
  "getItem signed_in_browser ''refreshToken'' = JStr ''r0''"
  "getItem signed_in_browser ''token'' = JStr ''t0''"
  "getItem signed_in_browser ''user'' = JStr ''{role:ADMIN}''"
  "default_Authorization signed_in_browser = Some ''Bearer t0''"
  "token_state signed_in_browser = JStr ''t0''"
  "sent signed_in_browser = []"
  by (simp_all add: signed_in_browser_def returning_browser_def fresh_browser_def getItem_def)

lemma no_refresh_token_run:
  "api_request server_expiring get_users browser_without_refresh_token =
     (Rejected (AxiosError (status_error
        (get_users\<lparr>Authorization := Some ''Bearer t0'', retry := True\<rparr>) unauthorized)),
      console_error ''Error 401:'' (JStr ''Token expired'')
        (browser_without_refresh_token
           \<lparr>sent := [ApiCall (get_users\<lparr>Authorization := Some ''Bearer t0''\<rparr>)]\<rparr>))"
proof -
  have o: "outgoing browser_without_refresh_token get_users =
             get_users\<lparr>Authorization := Some ''Bearer t0''\<rparr>"
    by (simp add: outgoing_def request_interceptor_def merge_defaults_def
        browser_without_refresh_token_def fresh_browser_def get_users_def getItem_def bearer_def)
  have g: "\<not> truthy (getItem browser_without_refresh_token ''refreshToken'')"
    by (simp add: browser_without_refresh_token_def fresh_browser_def getItem_def)
  have s: "sent browser_without_refresh_token = []"
    by (simp add: browser_without_refresh_token_def fresh_browser_def)
  show ?thesis
    using api_request_unauthorized
            [where net = server_expiring and config = get_users
               and w = browser_without_refresh_token and r = unauthorized]
    by (simp add: o g s server_expiring_def unauthorized_simps get_users_simps
          handle_other_errors_status status_label_401 js_or_def)
qed

lemma console_error_fields:
  "sent (console_error l v w) = sent w"
  "localStorage (console_error l v w) = localStorage w"
  "location_href (console_error l v w) = location_href w"
  "default_Authorization (console_error l v w) = default_Authorization w"
  by (simp_all add: console_error_def)

lemma refreshed_fields:
  "sent (refreshed w config response) =
     sent w @ [ApiCall (outgoing w config), AxiosCall (refresh_request w)]"
  "localStorage (refreshed w config response) =
     (localStorage w)
       (''token'' \<mapsto> js_to_string (get_prop_opt (data response) ''token''),
        ''refreshToken'' \<mapsto> js_to_string (get_prop_opt (data response) ''refreshToken''))"
  "location_href (refreshed w config response) = location_href w"
  "default_Authorization (refreshed w config response) =
     Some (bearer (get_prop_opt (data response) ''token''))"
  by (simp_all add: refreshed_def)

lemma sent_returning: "sent returning_browser = []"
  by (simp add: returning_browser_def fresh_browser_def)

lemma outgoing_reissued_returning:
  "outgoing (refreshed returning_browser get_users granted)
     (get_users\<lparr>retry := True, Authorization := Some ''Bearer t1''\<rparr>) =
   get_users\<lparr>retry := True, Authorization := Some ''Bearer t1''\<rparr>"
  using outgoing_reissued [of returning_browser get_users granted]
  by (simp add: reissued_returning)

lemma app_frame_refl: "app_frame w w"
  by (simp add: app_frame_def)

lemma app_frame_trans: "app_frame w w1 \<Longrightarrow> app_frame w1 w2 \<Longrightarrow> app_frame w w2"
  by (simp add: app_frame_def)

lemma app_frame_sent: "app_frame w (w\<lparr>sent := s\<rparr>)"
  by (simp add: app_frame_def)

lemma app_frame_handle_other_errors: "app_frame w (snd (handle_other_errors e w))"
  by (simp add: handle_other_errors_def app_frame_def console_error_def
      split: option.splits sum.splits)

lemma app_frame_refreshed: "app_frame w (refreshed w config response)"
  by (simp add: app_frame_def refreshed_def)

lemma handle_other_errors_keeps:
  "localStorage (snd (handle_other_errors e w)) = localStorage w"
  "default_Authorization (snd (handle_other_errors e w)) = default_Authorization w"
  "location_href (snd (handle_other_errors e w)) = location_href w"
  by (simp_all add: handle_other_errors_def console_error_def split: option.splits sum.splits)

lemma api_request_retried_keeps:
  assumes "retry config"
  shows "app_frame w (snd (api_request net config w))"
    and "localStorage (snd (api_request net config w)) = localStorage w"
    and "default_Authorization (snd (api_request net config w)) = default_Authorization w"
    and "location_href (snd (api_request net config w)) = location_href w"
  using assms
  by (auto simp: api_request_retried handle_other_errors_keeps app_frame_sent
      intro: app_frame_trans [OF app_frame_sent app_frame_handle_other_errors]
      split: sum.splits)

text \<open>Every way through one call of \<^verbatim>\<open>api\<close>, named by what the network answered.\<close>

lemma api_request_cases:
  obtains
    (fulfilled) response where
      "api_request net config w =
         (Fulfilled response, w\<lparr>sent := sent w @ [ApiCall (outgoing w config)]\<rparr>)"
  | (passed) e where
      "api_request net config w =
         handle_other_errors e (w\<lparr>sent := sent w @ [ApiCall (outgoing w config)]\<rparr>)"
  | (refresh_rejected) e where
      "api_request net config w =
         (Rejected e,
          w\<lparr>sent := sent w @ [ApiCall (outgoing w config), AxiosCall (refresh_request w)],
            localStorage :=
              (localStorage w)(''token'' := None, ''refreshToken'' := None, ''user'' := None),
            location_href := Some ''/login''\<rparr>)"
  | (granted) response where
      "\<not> retry config" and "truthy (getItem w ''refreshToken'')"
      and "settle (refresh_request w) (net (Suc (length (sent w))) (AxiosCall (refresh_request w))) =
             Inr response"
      and "api_request net config w =
             api_request net (reissued w config response) (refreshed w config response)"
proof (cases "settle (outgoing w config) (net (length (sent w)) (ApiCall (outgoing w config)))")
  case (Inr response)
  then show ?thesis
    using fulfilled by (simp add: api_request_step)
next
  case (Inl e)
  show ?thesis
  proof (cases "map_option status (err_response e) \<noteq> Some 401 \<or> retry config")
    case True
    then show ?thesis
      using passed api_request_passes [where net = net, OF Inl] by blast
  next
    case False
    then obtain r where r: "net (length (sent w)) (ApiCall (outgoing w config)) = Responded r"
        "status r = 401" and nr: "\<not> retry config"
      using Inl
      by (cases "net (length (sent w)) (ApiCall (outgoing w config))")
         (auto simp: status_error_def split: if_splits)
    note u = api_request_unauthorized [where net = net, OF nr r]
    show ?thesis
    proof (cases "truthy (getItem w ''refreshToken'')")
      case False
      then show ?thesis
        using passed u by simp
    next
      case t: True
      show ?thesis
      proof (cases "settle (refresh_request w)
                      (net (Suc (length (sent w))) (AxiosCall (refresh_request w)))")
        case (Inl refreshError)
        then show ?thesis
          using refresh_rejected api_request_refresh_rejected [where net = net, OF nr r t]
          by blast
      next
        case (Inr response)
        show ?thesis
        proof (cases "data response = JNull \<or> data response = JUndefined")
          case True
          then show ?thesis
            using refresh_rejected
              api_request_refresh_unusable [where net = net, OF nr r t Inr]
            by blast
        next
          case False
          then show ?thesis
            using granted [OF nr t Inr]
              api_request_refreshed [where net = net, OF nr r t Inr]
            by blast
        qed
      qed
    qed
  qed
qed

lemma app_frame_api_request: "app_frame w (snd (api_request net config w))"
proof (cases rule: api_request_cases [of net config w])
  case (fulfilled response)
  then show ?thesis by (simp add: app_frame_sent)
next
  case (passed e)
  then show ?thesis
    by (simp add: app_frame_trans [OF app_frame_sent app_frame_handle_other_errors])
next
  case (refresh_rejected e)
  then show ?thesis by (simp add: app_frame_def)
next
  case (granted response)
  then show ?thesis
    by (simp add: app_frame_trans [OF app_frame_refreshed
          api_request_retried_keeps(1) [OF retry_reissued]])
qed

lemma api_request_header:
  "default_Authorization (snd (api_request net config w)) = default_Authorization w \<or>
   (\<exists>response.
      \<not> retry config \<and> truthy (getItem w ''refreshToken'') \<and>
      settle (refresh_request w) (net (Suc (length (sent w))) (AxiosCall (refresh_request w))) =
        Inr response \<and>
      default_Authorization (snd (api_request net config w)) =
        Some (bearer (get_prop_opt (data response) ''token'')))"
proof (cases rule: api_request_cases [of net config w])
  case (fulfilled response)
  then show ?thesis by simp
next
  case (passed e)
  then show ?thesis by (simp add: handle_other_errors_keeps)
next
  case (refresh_rejected e)
  then show ?thesis by simp
next
  case (granted response)
  then show ?thesis
    by (auto simp: api_request_retried_keeps(3) [OF retry_reissued] refreshed_fields)
qed

lemma not_401_passes:
  assumes "\<not> is_401 out" and "settle cfg out = Inl e"
  shows "map_option status (err_response e) \<noteq> Some 401"
  using assms by (cases out) (auto simp: status_error_def split: if_splits)

lemma api_request_not_401:
  assumes "\<not> is_401 (net (length (sent w)) (ApiCall (outgoing w config)))"
  shows "localStorage (snd (api_request net config w)) = localStorage w"
proof (cases "settle (outgoing w config) (net (length (sent w)) (ApiCall (outgoing w config)))")
  case (Inl e)
  then show ?thesis
    using api_request_passes [where net = net, OF Inl] not_401_passes [OF assms Inl]
    by (simp add: handle_other_errors_keeps)
next
  case (Inr response)
  then show ?thesis by (simp add: api_request_step)
qed

lemma api_request_not_401_rejected:
  assumes "\<not> is_401 (net (length (sent w)) (ApiCall (outgoing w config)))"
    and "settle (outgoing w config) (net (length (sent w)) (ApiCall (outgoing w config))) = Inl e"
  shows "\<exists>x. fst (api_request net config w) = Rejected x"
  using api_request_passes [where net = net, OF assms(2)] not_401_passes [OF assms]
  by (simp add: handle_other_errors_rejects)

lemma returning_simps:
  "getItem returning_browser ''token'' = JStr ''t0''"
  "getItem returning_browser ''user'' = JStr ''{role:ADMIN}''"
  "localStorage returning_browser ''refreshToken'' = Some ''r0''"
  "localStorage returning_browser ''token'' = Some ''t0''"
  "localStorage returning_browser ''user'' = Some ''{role:ADMIN}''"
  by (simp_all add: returning_browser_def fresh_browser_def getItem_def)

lemma initializeAuth_verification_fails:
  assumes "truthy (getItem w ''token'')" and "truthy (getItem w ''user'')"
    and "fst (api_request net verify_request
           (w\<lparr>default_Authorization := Some (bearer (getItem w ''token''))\<rparr>)) = Rejected e"
  shows "fst (initializeAuth net JSON_parse w) = Fulfilled JUndefined"
    and "localStorage (snd (initializeAuth net JSON_parse w)) ''token'' = None"
    and "localStorage (snd (initializeAuth net JSON_parse w)) ''user'' = None"
    and "default_Authorization (snd (initializeAuth net JSON_parse w)) = None"
    and "user_state (snd (initializeAuth net JSON_parse w)) = user_state w"
    and "token_state (snd (initializeAuth net JSON_parse w)) = token_state w"
    and "loading_state (snd (initializeAuth net JSON_parse w)) = False"
  using assms
    app_frame_api_request [of "w\<lparr>default_Authorization := Some (bearer (getItem w ''token''))\<rparr>"
      net verify_request]
  by (simp_all add: initializeAuth_def Let_def api_get_def verify_request_def [symmetric]
        initializeAuth_catch_def removeItem_def case_prod_beta app_frame_def)

lemma mount_returning:
  "getItem (AuthProvider_mount returning_browser) ''token'' = JStr ''t0''"
  "getItem (AuthProvider_mount returning_browser) ''user'' = JStr ''{role:ADMIN}''"
  "token_state (AuthProvider_mount returning_browser) = JStr ''t0''"
  "user_state (AuthProvider_mount returning_browser) = JNull"
  "sent (AuthProvider_mount returning_browser) = []"
  by (simp_all add: AuthProvider_mount_def returning_browser_def fresh_browser_def getItem_def)

lemma outgoing_fresh:
  "outgoing fresh_browser cfg = cfg\<lparr>Authorization := Authorization cfg\<rparr>"
  by (simp add: outgoing_def request_interceptor_def merge_defaults_def fresh_browser_def
      getItem_def split: option.splits)

lemma api_get_listing_params:
  "api_get server_listing ''/requests'' ps fresh_browser =
     (Fulfilled \<lparr>status = 200, data = example_page\<rparr>,
      fresh_browser\<lparr>sent := [ApiCall \<lparr>http_method = ''get'', url = ''/requests'',
        params = ps, body = JUndefined, Authorization = None, retry = False\<rparr>]\<rparr>)"
  by (simp add: api_get_def api_request_step server_listing_def outgoing_fresh)
     (simp add: fresh_browser_def)

lemma api_request_not_401_keeps:
  assumes "\<not> is_401 (net (length (sent w)) (ApiCall (outgoing w config)))"
  shows "default_Authorization (snd (api_request net config w)) = default_Authorization w \<and>
         location_href (snd (api_request net config w)) = location_href w"
proof (cases "settle (outgoing w config) (net (length (sent w)) (ApiCall (outgoing w config)))")
  case (Inl e)
  then show ?thesis
    using api_request_passes [where net = net, OF Inl] not_401_passes [OF assms Inl]
    by (simp add: handle_other_errors_keeps)
next
  case (Inr response)
  then show ?thesis
    by (simp add: api_request_step)
qed

lemma refresh_result_of_retried: "retry config \<Longrightarrow> refresh_result_of net w config = NotAttempted"
  by (simp add: refresh_result_of_def)

lemma refresh_result_of_not_401:
  "\<not> is_401 (net (length (sent w)) (ApiCall (outgoing w config))) \<Longrightarrow>
   refresh_result_of net w config = NotAttempted"
  by (simp add: refresh_result_of_def)

text \<open>Storage and default header after one call of \<^verbatim>\<open>api\<close>, by what became of the refresh.\<close>

lemma api_request_effect:
  "localStorage (snd (api_request net config w)) =
     (case refresh_result_of net w config of
        NotAttempted \<Rightarrow> localStorage w
      | Failed \<Rightarrow>
          (localStorage w)(''token'' := None, ''refreshToken'' := None, ''user'' := None)
      | Granted response \<Rightarrow>
          (localStorage w)
            (''token'' \<mapsto> js_to_string (get_prop_opt (data response) ''token''),
             ''refreshToken'' \<mapsto> js_to_string (get_prop_opt (data response) ''refreshToken'')))"
    (is ?storage)
  "default_Authorization (snd (api_request net config w)) =
     (case refresh_result_of net w config of
        NotAttempted \<Rightarrow> default_Authorization w
      | Failed \<Rightarrow> default_Authorization w
      | Granted response \<Rightarrow> Some (bearer (get_prop_opt (data response) ''token'')))"
    (is ?header)
proof -
  have "?storage \<and> ?header"
  proof (cases "retry config")
    case True
    then show ?thesis
      by (simp add: refresh_result_of_retried api_request_retried_keeps)
  next
    case nr: False
    show ?thesis
    proof (cases "is_401 (net (length (sent w)) (ApiCall (outgoing w config)))")
      case False
      then show ?thesis
        by (simp add: refresh_result_of_not_401 api_request_not_401
              api_request_not_401_keeps)
    next
      case True
      then obtain r where r: "net (length (sent w)) (ApiCall (outgoing w config)) = Responded r"
          "status r = 401"
        by (cases "net (length (sent w)) (ApiCall (outgoing w config))") auto
      note u = api_request_unauthorized [where net = net, OF nr r]
      show ?thesis
      proof (cases "truthy (getItem w ''refreshToken'')")
        case False
        then show ?thesis
          by (simp add: refresh_result_of_def u handle_other_errors_keeps)
      next
        case t: True
        show ?thesis
        proof (cases "settle (refresh_request w)
                        (net (Suc (length (sent w))) (AxiosCall (refresh_request w)))")
          case (Inl refreshError)
          then show ?thesis
            using api_request_refresh_rejected [where net = net, OF nr r t Inl]
            by (simp add: refresh_result_of_def nr r t)
        next
          case (Inr response)
          show ?thesis
          proof (cases "data response = JNull \<or> data response = JUndefined")
            case True
            then show ?thesis
              using api_request_refresh_unusable [where net = net, OF nr r t Inr True]
              by (auto simp add: refresh_result_of_def nr r t Inr)
          next
            case False
            then have e: "api_request net config w =
                api_request net (reissued w config response) (refreshed w config response)"
              using api_request_refreshed [where net = net, OF nr r t Inr] by simp
            show ?thesis
              using False
              by (simp add: refresh_result_of_def nr r t Inr e
                    api_request_retried_keeps [OF retry_reissued] refreshed_fields)
          qed
        qed
      qed
    qed
  qed
  then show ?storage and ?header by simp_all
qed

text \<open>Storage after \<^verbatim>\<open>logout\<close> and after the cleanup of a failed startup verification.\<close>

lemma logout_storage:
  "localStorage (snd (logout net w)) =
     (localStorage (snd (api_request net logout_request w)))(''token'' := None, ''user'' := None)"
  by (simp add: logout_def api_post_def logout_request_def removeItem_def case_prod_beta)

lemma initializeAuth_failure_storage:
  assumes "truthy (getItem w ''token'')" and "truthy (getItem w ''user'')"
    and "fst (api_request net verify_request
           (w\<lparr>default_Authorization := Some (bearer (getItem w ''token''))\<rparr>)) = Rejected err"
  shows "localStorage (snd (initializeAuth net JSON_parse w)) =
     (localStorage (snd (api_request net verify_request
        (w\<lparr>default_Authorization := Some (bearer (getItem w ''token''))\<rparr>))))
       (''token'' := None, ''user'' := None)"
  using assms
  by (simp add: initializeAuth_def Let_def api_get_def verify_request_def [symmetric]
        initializeAuth_catch_def removeItem_def case_prod_beta)

section \<open>Role checks\<close>

text \<open>
  C6 (as amended). \<^verbatim>\<open>hasRole\<close> and \<^verbatim>\<open>hasAnyRole\<close> only read the user of the current session.
  Without a session, \<^verbatim>\<open>hasRole(role)\<close> is false for every role other than \<^verbatim>\<open>undefined\<close>, and
  \<^verbatim>\<open>hasAnyRole(roles)\<close> is false for every array that does not contain \<^verbatim>\<open>undefined\<close>. With
  a session whose user has the role \<open>r\<close>, \<^verbatim>\<open>hasRole(role)\<close> holds exactly when \<open>role\<close> is
  \<open>r\<close>, and \<^verbatim>\<open>hasAnyRole(roles)\<close> exactly when \<open>r\<close> is an element of the array.
\<close>

theorem hasRole_hasAnyRole_by_session:
  "(user_state w = JNull \<longrightarrow>
      (role \<noteq> JUndefined \<longrightarrow> \<not> hasRole w role) \<and>
      (JUndefined \<notin> set roles \<longrightarrow> hasAnyRole w (JArr roles) = Inr False)) \<and>
   (user_state w = JObj u \<and> map_of u ''role'' = Some (JStr r) \<longrightarrow>
      (hasRole w role \<longleftrightarrow> role = JStr r) \<and>
      hasAnyRole w (JArr roles) = Inr (JStr r \<in> set roles))"
  by (auto simp: hasRole_def hasAnyRole_def strict_eq_def list_ex_iff)

theorem hasRole_hasAnyRole_by_session_witness:
  "\<not> hasRole fresh_browser (JStr ''ADMIN'') \<and>
   hasAnyRole fresh_browser (JArr [JStr ''ADMIN'', JStr ''MODERATOR'']) = Inr False \<and>
   hasRole admin_session (JStr ''ADMIN'') \<and>
   \<not> hasRole admin_session (JStr ''MEMBER'') \<and>
   hasAnyRole admin_session (JArr [JStr ''MODERATOR'', JStr ''ADMIN'']) = Inr True \<and>
   hasAnyRole admin_session (JArr [JStr ''MODERATOR'', JStr ''MEMBER'']) = Inr False"
  using hasRole_hasAnyRole_by_session
          [where w = fresh_browser and role = "JStr ''ADMIN''"
             and roles = "[JStr ''ADMIN'', JStr ''MODERATOR'']"]
        hasRole_hasAnyRole_by_session
          [where w = admin_session and u = "[(''id'', JNum 7), (''role'', JStr ''ADMIN'')]"
             and r = "''ADMIN''" and role = "JStr ''ADMIN''"
             and roles = "[JStr ''MODERATOR'', JStr ''ADMIN'']"]
        hasRole_hasAnyRole_by_session
          [where w = admin_session and u = "[(''id'', JNum 7), (''role'', JStr ''ADMIN'')]"
             and r = "''ADMIN''" and role = "JStr ''MEMBER''"
             and roles = "[JStr ''MODERATOR'', JStr ''MEMBER'']"]
  by (simp add: fresh_browser_def admin_session_def)

text \<open>
  Without a session \<^verbatim>\<open>user?.role\<close> is \<^verbatim>\<open>undefined\<close>, which is strictly equal to an
  \<^verbatim>\<open>undefined\<close> argument and is found in an array that holds \<^verbatim>\<open>undefined\<close>.
\<close>

theorem hasRole_no_session_counterexample:
  "user_state fresh_browser = JNull \<and>
   hasRole fresh_browser JUndefined \<and>
   hasAnyRole fresh_browser (JArr [JUndefined]) = Inr True"
  by (simp add: fresh_browser_def hasRole_def hasAnyRole_def strict_eq_def)

section \<open>The pagination helpers\<close>

text \<open>
  C7. When the call of \<^verbatim>\<open>api.get\<close> is fulfilled with a body of the shape
  \<^verbatim>\<open>{data, pagination}\<close>, \<^verbatim>\<open>paginatedRequest\<close> is fulfilled with exactly
  \<^verbatim>\<open>{ data: body.data, pagination: body.pagination }\<close>, and does nothing else.
\<close>

theorem paginatedRequest_unwraps:
  assumes "api_get net endpoint (default_param ps (JObj [])) w = (Fulfilled response, w')"
    and "data response = JObj props"
    and "map_of props ''data'' = Some d"
    and "map_of props ''pagination'' = Some pg"
  shows "paginatedRequest net endpoint ps w =
           (Fulfilled (JObj [(''data'', d), (''pagination'', pg)]), w')"
  using assms by (simp add: paginatedRequest_def Let_def)

theorem paginatedRequest_unwraps_witness:
  "paginatedRequest server_listing ''/requests'' JUndefined fresh_browser =
     (Fulfilled (JObj [(''data'', JArr [JObj [(''id'', JNum 1)], JObj [(''id'', JNum 2)]]),
                       (''pagination'', JObj [(''page'', JNum 1), (''limit'', JNum 20),
                                              (''total'', JNum 2), (''pages'', JNum 1)])]),
      fresh_browser\<lparr>sent := [ApiCall \<lparr>http_method = ''get'', url = ''/requests'',
        params = JObj [], body = JUndefined, Authorization = None, retry = False\<rparr>]\<rparr>)"
  by (rule paginatedRequest_unwraps [where response = "\<lparr>status = 200, data = example_page\<rparr>"
        and props = "[(''data'', JArr [JObj [(''id'', JNum 1)], JObj [(''id'', JNum 2)]]),
           (''pagination'',
            JObj [(''page'', JNum 1), (''limit'', JNum 20), (''total'', JNum 2),
                  (''pages'', JNum 1)])]"])
     (simp_all add: default_param_def api_get_listing_params example_page_def)

section \<open>Errors other than an expired token\<close>

text \<open>
  C5 (as amended). When the server answers a call with 400, 403, 404, 429 or 500, or does
  not answer at all, the client sends nothing more (one request, no refresh, no retry) and
  the call is rejected. For a body other than \<^verbatim>\<open>null\<close> and \<^verbatim>\<open>undefined\<close>, and likewise without
  a response, the rejection is the axios error itself, unchanged: it carries the status and
  the body with its message. The classification by status is the label under which the
  handler logs the error, with the message of the body or else a fallback: Bad Request,
  Forbidden, Not Found, Too Many Requests, Server Error, and Network Error without a
  response.
\<close>

theorem other_errors_rejected_without_retry:
  fixes net :: network and config :: http_request and w :: world
  defines "cfg \<equiv> outgoing w config"
  defines "w1 \<equiv> w\<lparr>sent := sent w @ [ApiCall cfg]\<rparr>"
  shows
   "(net (length (sent w)) (ApiCall cfg) = Responded r \<and> status r \<in> {400, 403, 404, 429, 500} \<longrightarrow>
       (\<exists>e. fst (api_request net config w) = Rejected e) \<and>
       sent (snd (api_request net config w)) = sent w @ [ApiCall cfg] \<and>
       (data r \<noteq> JNull \<and> data r \<noteq> JUndefined \<longrightarrow>
          api_request net config w =
            (Rejected (AxiosError (status_error cfg r)),
             console_error (status_label (status r))
               (js_or (get_prop_opt (data r) ''message'') (JStr (status_fallback (status r))))
               w1))) \<and>
    (net (length (sent w)) (ApiCall cfg) = NoResponse msg \<longrightarrow>
       api_request net config w =
         (Rejected (AxiosError \<lparr>err_config = cfg, err_response = None, err_request = True,
                                 err_message = msg\<rparr>),
          console_error ''Network Error:''
            (JStr ''No response from server. Please check your connection.'') w1)) \<and>
    status_label 400 = ''Bad Request:'' \<and> status_fallback 400 = ''Invalid request'' \<and>
    status_label 403 = ''Forbidden:'' \<and> status_fallback 403 = ''Access denied'' \<and>
    status_label 404 = ''Not Found:'' \<and> status_fallback 404 = ''Resource not found'' \<and>
    status_label 429 = ''Too Many Requests:'' \<and> status_fallback 429 = ''Rate limit exceeded'' \<and>
    status_label 500 = ''Server Error:'' \<and> status_fallback 500 = ''Internal server error''"
proof (intro conjI impI)
  assume a: "net (length (sent w)) (ApiCall cfg) = Responded r \<and> status r \<in> {400, 403, 404, 429, 500}"
  then have s: "settle (outgoing w config) (net (length (sent w)) (ApiCall (outgoing w config))) =
                  Inl (status_error cfg r)"
    by (auto simp: cfg_def)
  have n: "map_option status (err_response (status_error cfg r)) \<noteq> Some 401 \<or> retry config"
    using a by (auto simp: status_error_def)
  have step: "api_request net config w = handle_other_errors (status_error cfg r) w1"
    using api_request_passes [where net = net and w = w and config = config, OF s n]
    by (simp add: w1_def cfg_def)
  show "\<exists>e. fst (api_request net config w) = Rejected e"
    by (simp add: step handle_other_errors_rejects)
  show "sent (snd (api_request net config w)) = sent w @ [ApiCall cfg]"
    by (simp add: step handle_other_errors_sent) (simp add: w1_def)
  assume "data r \<noteq> JNull \<and> data r \<noteq> JUndefined"
  then show "api_request net config w =
            (Rejected (AxiosError (status_error cfg r)),
             console_error (status_label (status r))
               (js_or (get_prop_opt (data r) ''message'') (JStr (status_fallback (status r))))
               w1)"
    by (simp add: step handle_other_errors_status)
next
  assume a: "net (length (sent w)) (ApiCall cfg) = NoResponse msg"
  then have s: "settle (outgoing w config) (net (length (sent w)) (ApiCall (outgoing w config))) =
                  Inl \<lparr>err_config = cfg, err_response = None, err_request = True,
                       err_message = msg\<rparr>"
    by (simp add: cfg_def)
  show "api_request net config w =
         (Rejected (AxiosError \<lparr>err_config = cfg, err_response = None, err_request = True,
                                 err_message = msg\<rparr>),
          console_error ''Network Error:''
            (JStr ''No response from server. Please check your connection.'') w1)"
    using api_request_passes [where net = net and w = w and config = config, OF s]
    by (simp add: handle_other_errors_def w1_def cfg_def)
qed (simp_all add: status_label_def status_fallback_def)

theorem other_errors_rejected_without_retry_witness:
  "api_request (server_answering \<lparr>status = 400, data = JObj []\<rparr>) get_users fresh_browser =
     (Rejected (AxiosError (status_error get_users \<lparr>status = 400, data = JObj []\<rparr>)),
      fresh_browser\<lparr>sent := [ApiCall get_users],
                    console_errors := [(''Bad Request:'', JStr ''Invalid request'')]\<rparr>) \<and>
   api_request server_forbidding get_users fresh_browser =
     (Rejected (AxiosError (status_error get_users
        \<lparr>status = 403, data = JObj [(''message'', JStr ''Access denied'')]\<rparr>)),
      fresh_browser\<lparr>sent := [ApiCall get_users],
                    console_errors := [(''Forbidden:'', JStr ''Access denied'')]\<rparr>) \<and>
   api_request (server_answering \<lparr>status = 404, data = JStr []\<rparr>) get_users fresh_browser =
     (Rejected (AxiosError (status_error get_users \<lparr>status = 404, data = JStr []\<rparr>)),
      fresh_browser\<lparr>sent := [ApiCall get_users],
                    console_errors := [(''Not Found:'', JStr ''Resource not found'')]\<rparr>) \<and>
   api_request
       (server_answering \<lparr>status = 429, data = JObj [(''message'', JStr ''Slow down'')]\<rparr>)
       get_users fresh_browser =
     (Rejected (AxiosError (status_error get_users
        \<lparr>status = 429, data = JObj [(''message'', JStr ''Slow down'')]\<rparr>)),
      fresh_browser\<lparr>sent := [ApiCall get_users],
                    console_errors := [(''Too Many Requests:'', JStr ''Slow down'')]\<rparr>) \<and>
   api_request
       (server_answering \<lparr>status = 500, data = JObj [(''message'', JStr [])]\<rparr>)
       get_users fresh_browser =
     (Rejected (AxiosError (status_error get_users
        \<lparr>status = 500, data = JObj [(''message'', JStr [])]\<rparr>)),
      fresh_browser\<lparr>sent := [ApiCall get_users],
                    console_errors := [(''Server Error:'', JStr ''Internal server error'')]\<rparr>) \<and>
   api_request server_unreachable get_users fresh_browser =
     (Rejected (AxiosError \<lparr>err_config = get_users, err_response = None, err_request = True,
                             err_message = ''Network Error''\<rparr>),
      fresh_browser\<lparr>sent := [ApiCall get_users],
                    console_errors := [(''Network Error:'',
                      JStr ''No response from server. Please check your connection.'')]\<rparr>)"
  using other_errors_rejected_without_retry
          [where net = "server_answering \<lparr>status = 400, data = JObj []\<rparr>" and config = get_users
             and w = fresh_browser and r = "\<lparr>status = 400, data = JObj []\<rparr>"]
        other_errors_rejected_without_retry
          [where net = server_forbidding and config = get_users and w = fresh_browser
             and r = "\<lparr>status = 403, data = JObj [(''message'', JStr ''Access denied'')]\<rparr>"]
        other_errors_rejected_without_retry
          [where net = "server_answering \<lparr>status = 404, data = JStr []\<rparr>" and config = get_users
             and w = fresh_browser and r = "\<lparr>status = 404, data = JStr []\<rparr>"]
        other_errors_rejected_without_retry
          [where net = "server_answering
                          \<lparr>status = 429, data = JObj [(''message'', JStr ''Slow down'')]\<rparr>"
             and config = get_users and w = fresh_browser
             and r = "\<lparr>status = 429, data = JObj [(''message'', JStr ''Slow down'')]\<rparr>"]
        other_errors_rejected_without_retry
          [where net = "server_answering \<lparr>status = 500, data = JObj [(''message'', JStr [])]\<rparr>"
             and config = get_users and w = fresh_browser
             and r = "\<lparr>status = 500, data = JObj [(''message'', JStr [])]\<rparr>"]
        other_errors_rejected_without_retry
          [where net = server_unreachable and config = get_users and w = fresh_browser
             and msg = "''Network Error''"]
  by (simp add: outgoing_fresh server_answering_def server_forbidding_def server_unreachable_def
        get_users_def js_or_def console_error_def)
     (simp add: fresh_browser_def)

text \<open>
  A 500 whose body is \<^verbatim>\<open>null\<close>: \<^verbatim>\<open>data.message\<close> throws inside the handler, so the caller is
  handed a \<^verbatim>\<open>TypeError\<close> that carries neither the status nor a message, and nothing is logged.
\<close>

theorem null_body_error_counterexample:
  "api_request (server_answering \<lparr>status = 500, data = JNull\<rparr>) get_users fresh_browser =
     (Rejected (Thrown (TypeError JNull ''message'')),
      fresh_browser\<lparr>sent := [ApiCall get_users]\<rparr>) \<and>
   console_errors
     (snd (api_request (server_answering \<lparr>status = 500, data = JNull\<rparr>) get_users fresh_browser)) =
     []"
proof -
  have s: "settle (outgoing fresh_browser get_users)
             (server_answering \<lparr>status = 500, data = JNull\<rparr> (length (sent fresh_browser))
                (ApiCall (outgoing fresh_browser get_users))) =
           Inl (status_error (outgoing fresh_browser get_users) \<lparr>status = 500, data = JNull\<rparr>)"
    by (simp add: server_answering_def)
  have "api_request (server_answering \<lparr>status = 500, data = JNull\<rparr>) get_users fresh_browser =
          handle_other_errors
            (status_error (outgoing fresh_browser get_users) \<lparr>status = 500, data = JNull\<rparr>)
            (fresh_browser\<lparr>sent := sent fresh_browser @ [ApiCall (outgoing fresh_browser get_users)]\<rparr>)"
    by (rule api_request_passes [where net = "server_answering \<lparr>status = 500, data = JNull\<rparr>", OF s])
       (simp add: status_error_def)
  then show ?thesis
    by (simp add: handle_other_errors_def status_error_def outgoing_fresh get_users_def)
       (simp add: fresh_browser_def)
qed

section \<open>A failed refresh\<close>

text \<open>
  C2. A request not yet retried is answered with 401 and a refresh token is stored, so the
  handler posts the refresh. When that request is rejected, or its response has no body to
  read the tokens from, the handler removes \<^verbatim>\<open>token\<close>, \<^verbatim>\<open>refreshToken\<close> and \<^verbatim>\<open>user\<close> from
  storage, sets the location to \<^verbatim>\<open>/login\<close>, and the original call is rejected with the
  refresh error; the original request is not sent again.
\<close>

theorem refresh_failure_clears_session:
  fixes net :: network and config :: http_request and w :: world
  defines "cfg \<equiv> outgoing w config"
  defines "rq \<equiv> refresh_request w"
  defines "cleared \<equiv>
     w\<lparr>sent := sent w @ [ApiCall cfg, AxiosCall rq],
       localStorage :=
         (localStorage w)(''token'' := None, ''refreshToken'' := None, ''user'' := None),
       location_href := Some ''/login''\<rparr>"
  assumes "\<not> retry config"
    and "net (length (sent w)) (ApiCall cfg) = Responded r"
    and "status r = 401"
    and "truthy (getItem w ''refreshToken'')"
  shows
   "(settle rq (net (Suc (length (sent w))) (AxiosCall rq)) = Inl refreshError \<longrightarrow>
       api_request net config w = (Rejected (AxiosError refreshError), cleared)) \<and>
    (settle rq (net (Suc (length (sent w))) (AxiosCall rq)) = Inr response \<and>
     (data response = JNull \<or> data response = JUndefined) \<longrightarrow>
       api_request net config w =
         (Rejected (Thrown (TypeError (data response) ''token'')), cleared))"
  using assms(4-7) unfolding cfg_def rq_def cleared_def
  by (auto simp: api_request_refresh_rejected [where net = net]
        api_request_refresh_unusable [where net = net])

theorem refresh_failure_clears_session_witness:
  "fst (api_request server_revoked get_users returning_browser) =
     Rejected (AxiosError (status_error (refresh_request returning_browser) unauthorized)) \<and>
   localStorage (snd (api_request server_revoked get_users returning_browser)) ''token'' = None \<and>
   localStorage (snd (api_request server_revoked get_users returning_browser)) ''refreshToken'' = None \<and>
   localStorage (snd (api_request server_revoked get_users returning_browser)) ''user'' = None \<and>
   location_href (snd (api_request server_revoked get_users returning_browser)) = Some ''/login'' \<and>
   fst (api_request server_empty_refresh get_users returning_browser) =
     Rejected (Thrown (TypeError JNull ''token'')) \<and>
   localStorage (snd (api_request server_empty_refresh get_users returning_browser)) ''token'' = None \<and>
   location_href (snd (api_request server_empty_refresh get_users returning_browser)) =
     Some ''/login''"
  using refresh_failure_clears_session
          [where net = server_revoked and config = get_users and w = returning_browser
             and r = unauthorized
             and refreshError = "status_error (refresh_request returning_browser) unauthorized"]
        refresh_failure_clears_session
          [where net = server_empty_refresh and config = get_users and w = returning_browser
             and r = unauthorized and response = "\<lparr>status = 200, data = JNull\<rparr>"]
  by (simp add: server_revoked_def server_empty_refresh_def unauthorized_simps getItem_returning
        get_users_def)

section \<open>One refresh, one retry\<close>

text \<open>
  C1 (as amended). A request not yet marked as retried is answered with 401. Without a
  stored refresh token the client sends nothing more. With one, it posts exactly one
  refresh: when the refresh is rejected, or is answered without a body to read the tokens
  from, nothing more is sent; when it is granted with a body,
  the call continues as the original request, marked as retried and carrying the new token,
  in the refreshed browser, so that exactly one retry follows the refresh. A request already
  marked as retried is sent once whatever the answer: a 401 for it starts no refresh and no
  retry, and is rejected to the caller as the axios error of that 401, with storage, default
  header and location as they were.
\<close>

theorem refresh_once_then_retry_once:
  fixes net :: network and config :: http_request and w :: world
  defines "cfg \<equiv> outgoing w config"
  defines "rq \<equiv> refresh_request w"
  defines "refresh_reply \<equiv> settle rq (net (Suc (length (sent w))) (AxiosCall rq))"
  shows
   "(\<not> retry config \<and> net (length (sent w)) (ApiCall cfg) = Responded r \<and> status r = 401 \<longrightarrow>
       (\<not> truthy (getItem w ''refreshToken'') \<longrightarrow>
          sent (snd (api_request net config w)) = sent w @ [ApiCall cfg]) \<and>
       (truthy (getItem w ''refreshToken'') \<and> refresh_reply = Inl refreshError \<longrightarrow>
          sent (snd (api_request net config w)) = sent w @ [ApiCall cfg, AxiosCall rq]) \<and>
       (truthy (getItem w ''refreshToken'') \<and> refresh_reply = Inr response \<and>
        (data response = JNull \<or> data response = JUndefined) \<longrightarrow>
          sent (snd (api_request net config w)) = sent w @ [ApiCall cfg, AxiosCall rq]) \<and>
       (truthy (getItem w ''refreshToken'') \<and> refresh_reply = Inr response \<and>
        data response \<noteq> JNull \<and> data response \<noteq> JUndefined \<longrightarrow>
          api_request net config w =
            api_request net (reissued w config response) (refreshed w config response) \<and>
          sent (snd (api_request net config w)) =
            sent w @ [ApiCall cfg, AxiosCall rq, ApiCall (reissued w config response)])) \<and>
    (retry config \<longrightarrow>
       sent (snd (api_request net config w)) = sent w @ [ApiCall cfg] \<and>
       (net (length (sent w)) (ApiCall cfg) = Responded r \<and> status r = 401 \<and>
        data r \<noteq> JNull \<and> data r \<noteq> JUndefined \<longrightarrow>
          api_request net config w =
            (Rejected (AxiosError (status_error cfg r)),
             console_error (status_label 401)
               (js_or (get_prop_opt (data r) ''message'') (JStr (status_fallback 401)))
               (w\<lparr>sent := sent w @ [ApiCall cfg]\<rparr>))))"
proof (intro conjI impI; (elim conjE)?)
  assume h: "\<not> retry config" "net (length (sent w)) (ApiCall cfg) = Responded r" "status r = 401"
  note u = api_request_unauthorized [where net = net, OF h(1) h(2) [unfolded cfg_def] h(3)]
  {
    assume "\<not> truthy (getItem w ''refreshToken'')"
    then show "sent (snd (api_request net config w)) = sent w @ [ApiCall cfg]"
      by (simp add: u handle_other_errors_sent cfg_def)
  }
  {
    assume "truthy (getItem w ''refreshToken'')" "refresh_reply = Inl refreshError"
    then show "sent (snd (api_request net config w)) = sent w @ [ApiCall cfg, AxiosCall rq]"
      by (simp add: u refresh_failed_eq cfg_def rq_def refresh_reply_def)
  }
  {
    assume a: "truthy (getItem w ''refreshToken'')" "refresh_reply = Inr response"
      "data response = JNull \<or> data response = JUndefined"
    show "sent (snd (api_request net config w)) = sent w @ [ApiCall cfg, AxiosCall rq]"
      using api_request_refresh_unusable [where net = net, OF h(1) h(2) [unfolded cfg_def] h(3)
              a(1) a(2) [unfolded refresh_reply_def rq_def] a(3)]
      by (simp add: cfg_def rq_def)
  }
  {
    assume a: "truthy (getItem w ''refreshToken'')" "refresh_reply = Inr response"
      "data response \<noteq> JNull" "data response \<noteq> JUndefined"
    show e: "api_request net config w =
            api_request net (reissued w config response) (refreshed w config response)"
      by (rule api_request_refreshed [where net = net, OF h(1) h(2) [unfolded cfg_def] h(3) a(1)
            a(2) [unfolded refresh_reply_def rq_def] a(3,4)])
    show "sent (snd (api_request net config w)) =
            sent w @ [ApiCall cfg, AxiosCall rq, ApiCall (reissued w config response)]"
      by (simp add: e api_request_retried_sent retry_reissued outgoing_reissued)
         (simp add: refreshed_def cfg_def rq_def)
  }
next
  assume "retry config"
  then show "sent (snd (api_request net config w)) = sent w @ [ApiCall cfg]"
    by (simp add: api_request_retried_sent cfg_def)
next
  assume "retry config" "net (length (sent w)) (ApiCall cfg) = Responded r" "status r = 401"
    "data r \<noteq> JNull" "data r \<noteq> JUndefined"
  then show "api_request net config w =
            (Rejected (AxiosError (status_error cfg r)),
             console_error (status_label 401)
               (js_or (get_prop_opt (data r) ''message'') (JStr (status_fallback 401)))
               (w\<lparr>sent := sent w @ [ApiCall cfg]\<rparr>))"
    unfolding cfg_def by (rule api_request_retried_unauthorized [where net = net])
qed

theorem refresh_once_then_retry_once_witness:
  "sent (snd (api_request server_expiring get_users returning_browser)) =
     [ApiCall (get_users\<lparr>Authorization := Some ''Bearer t0''\<rparr>),
      AxiosCall (refresh_request returning_browser),
      ApiCall (get_users\<lparr>retry := True, Authorization := Some ''Bearer t1''\<rparr>)] \<and>
   refresh_attempts (snd (api_request server_expiring get_users returning_browser)) = 1 \<and>
   api_sends (snd (api_request server_expiring get_users returning_browser)) = 2 \<and>
   fst (api_request server_expiring get_users returning_browser) =
     Rejected (AxiosError (status_error
       (get_users\<lparr>retry := True, Authorization := Some ''Bearer t1''\<rparr>) unauthorized)) \<and>
   sent (snd (api_request server_revoked get_users returning_browser)) =
     [ApiCall (get_users\<lparr>Authorization := Some ''Bearer t0''\<rparr>),
      AxiosCall (refresh_request returning_browser)] \<and>
   sent (snd (api_request server_expiring get_users browser_without_refresh_token)) =
     [ApiCall (get_users\<lparr>Authorization := Some ''Bearer t0''\<rparr>)]"
  using refresh_once_then_retry_once
          [where net = server_expiring and config = get_users and w = returning_browser
             and r = unauthorized and response = granted]
        refresh_once_then_retry_once
          [where net = server_revoked and config = get_users and w = returning_browser
             and r = unauthorized
             and refreshError = "status_error (refresh_request returning_browser) unauthorized"]
        refresh_once_then_retry_once
          [where net = server_expiring and config = get_users
             and w = browser_without_refresh_token and r = unauthorized]
        refresh_once_then_retry_once
          [where net = server_expiring and config = "reissued returning_browser get_users granted"
             and w = "refreshed returning_browser get_users granted" and r = unauthorized]
  by (simp add: server_expiring_def unauthorized_simps granted_simps getItem_returning
        get_users_simps outgoing_returning sent_returning outgoing_reissued_returning
        reissued_returning refresh_attempts_def api_sends_def console_error_fields
        refreshed_fields server_revoked_def without_refresh_token_simps)

text \<open>
  A 401 for a request not yet retried, without a stored refresh token: no refresh and no
  retry. And a second 401 after the retry: the caller gets the 401 error, while the refreshed
  tokens and the user stay in storage and the location is not changed.
\<close>

theorem single_401_counterexample:
  "\<not> retry get_users \<and>
   server_expiring (length (sent browser_without_refresh_token))
     (ApiCall (outgoing browser_without_refresh_token get_users)) = Responded unauthorized \<and>
   status unauthorized = 401 \<and>
   refresh_attempts (snd (api_request server_expiring get_users browser_without_refresh_token)) = 0 \<and>
   api_sends (snd (api_request server_expiring get_users browser_without_refresh_token)) = 1 \<and>
   fst (api_request server_expiring get_users returning_browser) =
     Rejected (AxiosError (status_error
       (get_users\<lparr>retry := True, Authorization := Some ''Bearer t1''\<rparr>) unauthorized)) \<and>
   localStorage (snd (api_request server_expiring get_users returning_browser)) ''token'' =
     Some ''t1'' \<and>
   localStorage (snd (api_request server_expiring get_users returning_browser)) ''refreshToken'' =
     Some ''r1'' \<and>
   localStorage (snd (api_request server_expiring get_users returning_browser)) ''user'' =
     Some ''{role:ADMIN}'' \<and>
   location_href (snd (api_request server_expiring get_users returning_browser)) = None"
  by (simp add: no_refresh_token_run expiring_run reissued_returning get_users_simps
        server_expiring_def unauthorized_simps refresh_attempts_def api_sends_def
        console_error_fields refreshed_fields granted_simps)
     (simp add: browser_without_refresh_token_def returning_browser_def fresh_browser_def)

section \<open>Who writes the session and the default header\<close>

text \<open>
  C8 (as amended). A call of \<^verbatim>\<open>api\<close> never writes the user and token state of
  \<^verbatim>\<open>AuthProvider\<close>. It does write the default \<^verbatim>\<open>Authorization\<close> header of \<^verbatim>\<open>api\<close>, in exactly
  one case: when a request not yet marked as retried is answered with a 401, a refresh token
  is stored and the posted refresh is granted with a body, the response interceptor sets the
  header to \<^verbatim>\<open>Bearer\<close> and the new token. In every other case (no refresh attempted, or a
  failed one) the call leaves the header as it was.
\<close>

theorem client_core_writes:
  "user_state (snd (api_request net config w)) = user_state w \<and>
   token_state (snd (api_request net config w)) = token_state w \<and>
   default_Authorization (snd (api_request net config w)) =
     (case refresh_result_of net w config of
        NotAttempted \<Rightarrow> default_Authorization w
      | Failed \<Rightarrow> default_Authorization w
      | Granted response \<Rightarrow> Some (bearer (get_prop_opt (data response) ''token''))) \<and>
   (\<not> retry config \<and> net (length (sent w)) (ApiCall (outgoing w config)) = Responded r \<and>
    status r = 401 \<and> truthy (getItem w ''refreshToken'') \<and>
    settle (refresh_request w) (net (Suc (length (sent w))) (AxiosCall (refresh_request w))) =
      Inr response \<and>
    data response \<noteq> JNull \<and> data response \<noteq> JUndefined \<longrightarrow>
      default_Authorization (snd (api_request net config w)) =
        Some (bearer (get_prop_opt (data response) ''token''))) \<and>
   (retry config \<or> \<not> is_401 (net (length (sent w)) (ApiCall (outgoing w config))) \<or>
    \<not> truthy (getItem w ''refreshToken'') \<longrightarrow>
      default_Authorization (snd (api_request net config w)) = default_Authorization w) \<and>
   (settle (refresh_request w) (net (Suc (length (sent w))) (AxiosCall (refresh_request w))) =
      Inl refreshError \<longrightarrow>
      default_Authorization (snd (api_request net config w)) = default_Authorization w) \<and>
   (settle (refresh_request w) (net (Suc (length (sent w))) (AxiosCall (refresh_request w))) =
      Inr response \<and> (data response = JNull \<or> data response = JUndefined) \<longrightarrow>
      default_Authorization (snd (api_request net config w)) = default_Authorization w)"
proof -
  have f: "app_frame w (snd (api_request net config w))"
    by (rule app_frame_api_request)
  note h = api_request_effect(2) [of net config w]
  show ?thesis
    using f by (auto simp: app_frame_def h refresh_result_of_def)
qed

theorem client_core_writes_witness:
  "default_Authorization signed_in_browser = Some ''Bearer t0'' \<and>
   user_state (snd (api_request server_expiring get_users signed_in_browser)) =
     user_state signed_in_browser \<and>
   token_state (snd (api_request server_expiring get_users signed_in_browser)) = JStr ''t0'' \<and>
   default_Authorization (snd (api_request server_expiring get_users signed_in_browser)) =
     Some ''Bearer t1'' \<and>
   default_Authorization (snd (api_request server_revoked get_users signed_in_browser)) =
     Some ''Bearer t0'' \<and>
   default_Authorization (snd (api_request server_empty_refresh get_users signed_in_browser)) =
     Some ''Bearer t0'' \<and>
   default_Authorization (snd (api_request server_forbidding get_users signed_in_browser)) =
     Some ''Bearer t0''"
  using client_core_writes [where net = server_expiring and config = get_users
          and w = signed_in_browser]
        client_core_writes [where net = server_revoked and config = get_users
          and w = signed_in_browser]
        client_core_writes [where net = server_empty_refresh and config = get_users
          and w = signed_in_browser]
        client_core_writes [where net = server_forbidding and config = get_users
          and w = signed_in_browser]
  by (simp add: refresh_result_of_def server_expiring_def server_revoked_def
        server_empty_refresh_def server_forbidding_def unauthorized_simps granted_simps
        get_users_simps signed_in_simps bearer_def)

text \<open>The response interceptor, not the session holder, gives the header its new value.\<close>

theorem client_core_writes_header_counterexample:
  "default_Authorization returning_browser = None \<and>
   default_Authorization (snd (api_request server_expiring get_users returning_browser)) =
     Some ''Bearer t1''"
  by (simp add: expiring_run console_error_fields refreshed_fields granted_simps bearer_def)
     (simp add: returning_browser_def fresh_browser_def)

section \<open>Logout\<close>

text \<open>
  C3. \<^verbatim>\<open>logout\<close> is fulfilled whatever the server call does, rejection included. Afterwards
  the \<^verbatim>\<open>token\<close> and \<^verbatim>\<open>user\<close> entries are gone from storage, the default \<^verbatim>\<open>Authorization\<close>
  header is deleted, the token and user state are \<^verbatim>\<open>null\<close>, and the user has been sent to
  \<^verbatim>\<open>/login\<close> with the toast of a successful logout.
\<close>

theorem logout_always_clears_session:
  "fst (logout net w) = Fulfilled JUndefined \<and>
   localStorage (snd (logout net w)) ''token'' = None \<and>
   localStorage (snd (logout net w)) ''user'' = None \<and>
   default_Authorization (snd (logout net w)) = None \<and>
   token_state (snd (logout net w)) = JNull \<and>
   user_state (snd (logout net w)) = JNull \<and>
   navigations (snd (logout net w)) = navigations w @ [''/login''] \<and>
   toasts (snd (logout net w)) = toasts w @ [ToastSuccess ''Logged out successfully'']"
  using app_frame_api_request [of w net logout_request]
  by (simp add: logout_def api_post_def logout_request_def removeItem_def app_frame_def
      case_prod_beta)

theorem logout_always_clears_session_witness:
  "token_state signed_in_browser = JStr ''t0'' \<and>
   localStorage signed_in_browser ''token'' = Some ''t0'' \<and>
   fst (logout server_unreachable signed_in_browser) = Fulfilled JUndefined \<and>
   localStorage (snd (logout server_unreachable signed_in_browser)) ''token'' = None \<and>
   localStorage (snd (logout server_unreachable signed_in_browser)) ''user'' = None \<and>
   default_Authorization (snd (logout server_unreachable signed_in_browser)) = None \<and>
   token_state (snd (logout server_unreachable signed_in_browser)) = JNull \<and>
   user_state (snd (logout server_unreachable signed_in_browser)) = JNull \<and>
   navigations (snd (logout server_unreachable signed_in_browser)) = [''/login'']"
  using logout_always_clears_session [of server_unreachable signed_in_browser]
  by (simp add: signed_in_browser_def returning_browser_def fresh_browser_def)


section \<open>What each cleanup removes from storage\<close>

text \<open>
  C9 (as amended). \<^verbatim>\<open>logout\<close> itself removes the keys \<^verbatim>\<open>token\<close> and \<^verbatim>\<open>user\<close> from whatever
  storage its server call left, and never \<^verbatim>\<open>refreshToken\<close>; so does the cleanup of
  \<^verbatim>\<open>initializeAuth\<close> after a failed verification. Their server call goes through the response
  interceptor, and what is left of storage follows what became of the refresh there. With no
  refresh attempted, in particular whenever the call is not answered with 401, storage is
  the storage before without \<^verbatim>\<open>token\<close> and \<^verbatim>\<open>user\<close>, and a persisted \<^verbatim>\<open>refreshToken\<close> survives.
  With a failed refresh, the refresh-failure path of the interceptor has removed all three
  keys \<^verbatim>\<open>token\<close>, \<^verbatim>\<open>refreshToken\<close> and \<^verbatim>\<open>user\<close>, and the refresh token is gone. With a granted
  refresh, the new refresh token has replaced the stored one. A call of \<^verbatim>\<open>api\<close> removes
  \<^verbatim>\<open>refreshToken\<close> on the refresh-failure path only.
\<close>

theorem storage_keys_removed_by_each_cleanup:
  fixes net :: network and w :: world
  defines "w1 \<equiv> w\<lparr>default_Authorization := Some (bearer (getItem w ''token''))\<rparr>"
  defines "verify_reply \<equiv> net (length (sent w)) (ApiCall (outgoing w1 verify_request))"
  defines "rq \<equiv> refresh_request w"
  shows
   "localStorage (snd (logout net w)) =
      (localStorage (snd (api_post net ''/auth/logout'' JUndefined w)))
        (''token'' := None, ''user'' := None) \<and>
    (\<not> is_401 (net (length (sent w)) (ApiCall (outgoing w logout_request))) \<longrightarrow>
       localStorage (snd (logout net w)) = (localStorage w)(''token'' := None, ''user'' := None)) \<and>
    (truthy (getItem w ''token'') \<and> truthy (getItem w ''user'') \<and>
     fst (api_get net ''/auth/verify'' JUndefined w1) = Rejected err \<longrightarrow>
       localStorage (snd (initializeAuth net JSON_parse w)) =
         (localStorage (snd (api_get net ''/auth/verify'' JUndefined w1)))
           (''token'' := None, ''user'' := None)) \<and>
    (truthy (getItem w ''token'') \<and> truthy (getItem w ''user'') \<and>
     settle (outgoing w1 verify_request) verify_reply = Inl e \<and> \<not> is_401 verify_reply \<longrightarrow>
       localStorage (snd (initializeAuth net JSON_parse w)) =
         (localStorage w)(''token'' := None, ''user'' := None)) \<and>
    (\<not> retry config \<and> is_401 (net (length (sent w)) (ApiCall (outgoing w config))) \<and>
     truthy (getItem w ''refreshToken'') \<and>
     settle rq (net (Suc (length (sent w))) (AxiosCall rq)) = Inl refreshError \<longrightarrow>
       localStorage (snd (api_request net config w)) =
         (localStorage w)(''token'' := None, ''refreshToken'' := None, ''user'' := None)) \<and>
    localStorage (snd (api_request net config w)) =
      (case refresh_result_of net w config of
         NotAttempted \<Rightarrow> localStorage w
       | Failed \<Rightarrow>
           (localStorage w)(''token'' := None, ''refreshToken'' := None, ''user'' := None)
       | Granted response \<Rightarrow>
           (localStorage w)
             (''token'' \<mapsto> js_to_string (get_prop_opt (data response) ''token''),
              ''refreshToken'' \<mapsto> js_to_string (get_prop_opt (data response) ''refreshToken''))) \<and>
    localStorage (snd (logout net w)) =
      (case refresh_result_of net w logout_request of
         NotAttempted \<Rightarrow> (localStorage w)(''token'' := None, ''user'' := None)
       | Failed \<Rightarrow>
           (localStorage w)(''token'' := None, ''refreshToken'' := None, ''user'' := None)
       | Granted response \<Rightarrow>
           (localStorage w)
             (''refreshToken'' \<mapsto> js_to_string (get_prop_opt (data response) ''refreshToken''),
              ''token'' := None, ''user'' := None)) \<and>
    (truthy (getItem w ''token'') \<and> truthy (getItem w ''user'') \<and>
     fst (api_get net ''/auth/verify'' JUndefined w1) = Rejected err \<longrightarrow>
       localStorage (snd (initializeAuth net JSON_parse w)) =
         (case refresh_result_of net w1 verify_request of
            NotAttempted \<Rightarrow> (localStorage w)(''token'' := None, ''user'' := None)
          | Failed \<Rightarrow>
              (localStorage w)(''token'' := None, ''refreshToken'' := None, ''user'' := None)
          | Granted response \<Rightarrow>
              (localStorage w)
                (''refreshToken'' \<mapsto>
                   js_to_string (get_prop_opt (data response) ''refreshToken''),
                 ''token'' := None, ''user'' := None)))"
proof (intro conjI impI; (elim conjE)?)
  show "localStorage (snd (logout net w)) =
      (localStorage (snd (api_post net ''/auth/logout'' JUndefined w)))
        (''token'' := None, ''user'' := None)"
    by (simp add: logout_def removeItem_def case_prod_beta)
next
  assume "\<not> is_401 (net (length (sent w)) (ApiCall (outgoing w logout_request)))"
  then have "localStorage (snd (api_post net ''/auth/logout'' JUndefined w)) = localStorage w"
    unfolding api_post_def logout_request_def by (rule api_request_not_401 [where net = net])
  then show "localStorage (snd (logout net w)) =
      (localStorage w)(''token'' := None, ''user'' := None)"
    by (simp add: logout_def removeItem_def case_prod_beta)
next
  assume "truthy (getItem w ''token'')" "truthy (getItem w ''user'')"
    "fst (api_get net ''/auth/verify'' JUndefined w1) = Rejected err"
  then show "localStorage (snd (initializeAuth net JSON_parse w)) =
         (localStorage (snd (api_get net ''/auth/verify'' JUndefined w1)))
           (''token'' := None, ''user'' := None)"
    by (simp add: initializeAuth_def Let_def w1_def [symmetric] initializeAuth_catch_def
          removeItem_def case_prod_beta)
next
  assume a: "truthy (getItem w ''token'')" "truthy (getItem w ''user'')"
    "settle (outgoing w1 verify_request) verify_reply = Inl e" "\<not> is_401 verify_reply"
  have s: "sent w1 = sent w" "localStorage w1 = localStorage w"
    by (simp_all add: w1_def)
  have n: "\<not> is_401 (net (length (sent w1)) (ApiCall (outgoing w1 verify_request)))"
    using a(4) by (simp add: verify_reply_def s)
  have l: "localStorage (snd (api_request net verify_request w1)) = localStorage w"
    using api_request_not_401 [where net = net, OF n] by (simp add: s)
  obtain x where x: "fst (api_request net verify_request w1) = Rejected x"
    using api_request_not_401_rejected [where net = net, OF n] a(3)
    by (auto simp: verify_reply_def s)
  show "localStorage (snd (initializeAuth net JSON_parse w)) =
         (localStorage w)(''token'' := None, ''user'' := None)"
    using a(1,2) x l
    by (simp add: initializeAuth_def Let_def api_get_def verify_request_def [symmetric]
          w1_def [symmetric] initializeAuth_catch_def removeItem_def case_prod_beta)
next
  assume a: "\<not> retry config" "is_401 (net (length (sent w)) (ApiCall (outgoing w config)))"
    "truthy (getItem w ''refreshToken'')"
    "settle rq (net (Suc (length (sent w))) (AxiosCall rq)) = Inl refreshError"
  from a(2) obtain r where r: "net (length (sent w)) (ApiCall (outgoing w config)) = Responded r"
      "status r = 401"
    by (cases "net (length (sent w)) (ApiCall (outgoing w config))") auto
  show "localStorage (snd (api_request net config w)) =
         (localStorage w)(''token'' := None, ''refreshToken'' := None, ''user'' := None)"
    using api_request_refresh_rejected [where net = net, OF a(1) r a(3) a(4) [unfolded rq_def]]
    by simp
next
  show "localStorage (snd (api_request net config w)) =
      (case refresh_result_of net w config of
         NotAttempted \<Rightarrow> localStorage w
       | Failed \<Rightarrow>
           (localStorage w)(''token'' := None, ''refreshToken'' := None, ''user'' := None)
       | Granted response \<Rightarrow>
           (localStorage w)
             (''token'' \<mapsto> js_to_string (get_prop_opt (data response) ''token''),
              ''refreshToken'' \<mapsto> js_to_string (get_prop_opt (data response) ''refreshToken'')))"
    by (rule api_request_effect(1))
next
  show "localStorage (snd (logout net w)) =
      (case refresh_result_of net w logout_request of
         NotAttempted \<Rightarrow> (localStorage w)(''token'' := None, ''user'' := None)
       | Failed \<Rightarrow>
           (localStorage w)(''token'' := None, ''refreshToken'' := None, ''user'' := None)
       | Granted response \<Rightarrow>
           (localStorage w)
             (''refreshToken'' \<mapsto> js_to_string (get_prop_opt (data response) ''refreshToken''),
              ''token'' := None, ''user'' := None))"
    by (cases "refresh_result_of net w logout_request")
       (auto simp: logout_storage api_request_effect(1))
next
  assume a: "truthy (getItem w ''token'')" "truthy (getItem w ''user'')"
    "fst (api_get net ''/auth/verify'' JUndefined w1) = Rejected err"
  have l: "localStorage w1 = localStorage w"
    by (simp add: w1_def)
  have x: "fst (api_request net verify_request w1) = Rejected err"
    using a(3) by (simp add: api_get_def verify_request_def)
  show "localStorage (snd (initializeAuth net JSON_parse w)) =
         (case refresh_result_of net w1 verify_request of
            NotAttempted \<Rightarrow> (localStorage w)(''token'' := None, ''user'' := None)
          | Failed \<Rightarrow>
              (localStorage w)(''token'' := None, ''refreshToken'' := None, ''user'' := None)
          | Granted response \<Rightarrow>
              (localStorage w)
                (''refreshToken'' \<mapsto>
                   js_to_string (get_prop_opt (data response) ''refreshToken''),
                 ''token'' := None, ''user'' := None))"
    using initializeAuth_failure_storage [OF a(1,2) x [unfolded w1_def], of JSON_parse]
    by (cases "refresh_result_of net w1 verify_request")
       (auto simp: api_request_effect(1) [of net verify_request w1] l
          w1_def [symmetric])
qed

lemma revoked_verify_rejected:
  "fst (api_request server_revoked verify_request
          (returning_browser\<lparr>default_Authorization := Some ''Bearer t0''\<rparr>)) =
     Rejected (AxiosError (status_error (refresh_request returning_browser) unauthorized))"
proof -
  let ?w1 = "returning_browser\<lparr>default_Authorization := Some ''Bearer t0''\<rparr>"
  have q: "refresh_request ?w1 = refresh_request returning_browser"
    by (simp add: refresh_request_def refresh_url_def getItem_def)
  have "api_request server_revoked verify_request ?w1 =
          (Rejected (AxiosError (status_error (refresh_request ?w1) unauthorized)),
           ?w1\<lparr>sent := sent ?w1 @ [ApiCall (outgoing ?w1 verify_request),
                                    AxiosCall (refresh_request ?w1)],
               localStorage :=
                 (localStorage ?w1)(''token'' := None, ''refreshToken'' := None, ''user'' := None),
               location_href := Some ''/login''\<rparr>)"
    by (rule api_request_refresh_rejected [where r = unauthorized])
       (simp_all add: server_revoked_def unauthorized_simps verify_request_def getItem_def
          returning_browser_def fresh_browser_def)
  then show ?thesis
    by (simp add: q)
qed

lemma refresh_result_of_revoked:
  "refresh_result_of server_revoked returning_browser logout_request = Failed"
  "refresh_result_of server_revoked
     (returning_browser\<lparr>default_Authorization := Some ''Bearer t0''\<rparr>) verify_request = Failed"
  "refresh_result_of server_revoked returning_browser get_users = Failed"
  "refresh_result_of server_expiring returning_browser logout_request = Granted granted"
  "refresh_result_of server_unreachable returning_browser logout_request = NotAttempted"
  by (simp_all add: refresh_result_of_def server_revoked_def server_expiring_def
        server_unreachable_def unauthorized_simps granted_simps logout_request_def
        verify_request_def get_users_simps getItem_def returning_browser_def fresh_browser_def)

theorem storage_keys_removed_by_each_cleanup_witness:
  "localStorage returning_browser ''refreshToken'' = Some ''r0'' \<and>
   localStorage (snd (logout server_unreachable returning_browser)) ''refreshToken'' = Some ''r0'' \<and>
   localStorage (snd (logout server_unreachable returning_browser)) ''token'' = None \<and>
   localStorage (snd (logout server_unreachable returning_browser)) ''user'' = None \<and>
   localStorage (snd (initializeAuth server_forbidding example_parse returning_browser))
     ''refreshToken'' = Some ''r0'' \<and>
   localStorage (snd (initializeAuth server_forbidding example_parse returning_browser))
     ''token'' = None \<and>
   localStorage (snd (initializeAuth server_forbidding example_parse returning_browser))
     ''user'' = None \<and>
   localStorage (snd (api_request server_revoked get_users returning_browser))
     ''refreshToken'' = None \<and>
   localStorage (snd (api_request server_revoked get_users returning_browser)) ''token'' = None \<and>
   localStorage (snd (api_request server_revoked get_users returning_browser)) ''user'' = None \<and>
   localStorage (snd (logout server_revoked returning_browser)) ''refreshToken'' = None \<and>
   localStorage (snd (logout server_expiring returning_browser)) ''refreshToken'' = Some ''r1'' \<and>
   localStorage (snd (logout server_expiring returning_browser)) ''token'' = None \<and>
   localStorage (snd (initializeAuth server_revoked example_parse returning_browser))
     ''refreshToken'' = None"
proof -
  have a: "localStorage (snd (logout server_unreachable returning_browser)) =
             (localStorage returning_browser)(''token'' := None, ''user'' := None)"
    using storage_keys_removed_by_each_cleanup
            [where net = server_unreachable and w = returning_browser,
             THEN conjunct2, THEN conjunct1]
    by (simp add: server_unreachable_def)
  have b: "localStorage (snd (initializeAuth server_forbidding example_parse returning_browser)) =
             (localStorage returning_browser)(''token'' := None, ''user'' := None)"
    using storage_keys_removed_by_each_cleanup
            [where net = server_forbidding and w = returning_browser
               and JSON_parse = example_parse
               and e = "status_error
                  (outgoing (returning_browser\<lparr>default_Authorization := Some ''Bearer t0''\<rparr>)
                     verify_request)
                  \<lparr>status = 403, data = JObj [(''message'', JStr ''Access denied'')]\<rparr>",
             THEN conjunct2, THEN conjunct2, THEN conjunct2, THEN conjunct1]
    by (simp add: server_forbidding_def returning_simps bearer_def)
  have c: "localStorage (snd (api_request server_revoked get_users returning_browser)) =
             (localStorage returning_browser)
               (''token'' := None, ''refreshToken'' := None, ''user'' := None)"
    using storage_keys_removed_by_each_cleanup
            [where net = server_revoked and w = returning_browser and config = get_users
               and refreshError = "status_error (refresh_request returning_browser) unauthorized",
             THEN conjunct2, THEN conjunct2, THEN conjunct2, THEN conjunct2, THEN conjunct1]
    by (simp add: server_revoked_def getItem_returning unauthorized_simps get_users_simps)
  have d: "localStorage (snd (logout server_revoked returning_browser)) =
             (localStorage returning_browser)
               (''token'' := None, ''refreshToken'' := None, ''user'' := None)"
    using storage_keys_removed_by_each_cleanup
            [where net = server_revoked and w = returning_browser,
             THEN conjunct2, THEN conjunct2, THEN conjunct2, THEN conjunct2, THEN conjunct2,
             THEN conjunct2, THEN conjunct1]
    by (simp add: refresh_result_of_revoked)
  have e: "localStorage (snd (logout server_expiring returning_browser)) =
             (localStorage returning_browser)
               (''refreshToken'' \<mapsto> ''r1'', ''token'' := None, ''user'' := None)"
    using storage_keys_removed_by_each_cleanup
            [where net = server_expiring and w = returning_browser,
             THEN conjunct2, THEN conjunct2, THEN conjunct2, THEN conjunct2, THEN conjunct2,
             THEN conjunct2, THEN conjunct1]
    by (simp add: refresh_result_of_revoked granted_simps)
  have f: "localStorage (snd (initializeAuth server_revoked example_parse returning_browser)) =
             (localStorage returning_browser)
               (''token'' := None, ''refreshToken'' := None, ''user'' := None)"
    using storage_keys_removed_by_each_cleanup
            [where net = server_revoked and w = returning_browser
               and JSON_parse = example_parse
               and err = "AxiosError (status_error (refresh_request returning_browser) unauthorized)",
             THEN conjunct2, THEN conjunct2, THEN conjunct2, THEN conjunct2, THEN conjunct2,
             THEN conjunct2, THEN conjunct2]
      revoked_verify_rejected
    by (simp add: returning_simps bearer_def api_get_def verify_request_def [symmetric]
          refresh_result_of_revoked)
  show ?thesis
    by (simp add: a b c d e f returning_simps)
qed

text \<open>
  \<^verbatim>\<open>logout\<close>, and a startup whose verification fails, against a server that answers 401 to
  every call, the refresh included: the persisted refresh token does not survive.
\<close>

theorem refresh_token_removed_counterexample:
  "localStorage returning_browser ''refreshToken'' = Some ''r0'' \<and>
   localStorage (snd (logout server_revoked returning_browser)) ''refreshToken'' = None \<and>
   localStorage (snd (initializeAuth server_revoked example_parse returning_browser))
     ''refreshToken'' = None"
proof -
  have t: "truthy (getItem returning_browser ''token'')" "truthy (getItem returning_browser ''user'')"
    by (simp_all add: returning_simps)
  have x: "fst (api_request server_revoked verify_request
             (returning_browser\<lparr>default_Authorization :=
                Some (bearer (getItem returning_browser ''token''))\<rparr>)) =
           Rejected (AxiosError (status_error (refresh_request returning_browser) unauthorized))"
    using revoked_verify_rejected by (simp add: returning_simps bearer_def)
  show ?thesis
    using initializeAuth_failure_storage [OF t x, of example_parse]
    by (simp add: logout_storage api_request_effect(1) refresh_result_of_revoked returning_simps
          bearer_def)
qed

section \<open>Startup with a persisted session\<close>

text \<open>
  C4, the part of it that the code does not keep. A browser holds a persisted token and
  user, \<^verbatim>\<open>AuthProvider\<close> mounts, and the server answers the verification with 403.
  \<^verbatim>\<open>initializeAuth\<close> is fulfilled, the \<^verbatim>\<open>token\<close> and \<^verbatim>\<open>user\<close> entries and the default header are
  removed and the user state stays \<^verbatim>\<open>null\<close>; but the token state, which \<^verbatim>\<open>useState\<close> took from
  storage at mount, still holds the persisted token.
\<close>

theorem startup_verification_failure_keeps_token:
  "token_state (AuthProvider_mount returning_browser) = JStr ''t0'' \<and>
   fst (initializeAuth server_forbidding JSON_parse (AuthProvider_mount returning_browser)) =
     Fulfilled JUndefined \<and>
   localStorage (snd (initializeAuth server_forbidding JSON_parse
                        (AuthProvider_mount returning_browser))) ''token'' = None \<and>
   localStorage (snd (initializeAuth server_forbidding JSON_parse
                        (AuthProvider_mount returning_browser))) ''user'' = None \<and>
   default_Authorization (snd (initializeAuth server_forbidding JSON_parse
                        (AuthProvider_mount returning_browser))) = None \<and>
   user_state (snd (initializeAuth server_forbidding JSON_parse
                        (AuthProvider_mount returning_browser))) = JNull \<and>
   token_state (snd (initializeAuth server_forbidding JSON_parse
                        (AuthProvider_mount returning_browser))) = JStr ''t0''"
proof -
  let ?w = "AuthProvider_mount returning_browser"
  let ?w1 = "?w\<lparr>default_Authorization := Some (bearer (getItem ?w ''token''))\<rparr>"
  have n: "\<not> is_401 (server_forbidding (length (sent ?w1)) (ApiCall (outgoing ?w1 verify_request)))"
    by (simp add: server_forbidding_def)
  have "settle (outgoing ?w1 verify_request)
          (server_forbidding (length (sent ?w1)) (ApiCall (outgoing ?w1 verify_request))) =
        Inl (status_error (outgoing ?w1 verify_request)
               \<lparr>status = 403, data = JObj [(''message'', JStr ''Access denied'')]\<rparr>)"
    by (simp add: server_forbidding_def)
  then obtain x where x: "fst (api_request server_forbidding verify_request ?w1) = Rejected x"
    using api_request_not_401_rejected [where net = server_forbidding, OF n] by blast
  have t: "truthy (getItem ?w ''token'')" "truthy (getItem ?w ''user'')"
    by (simp_all add: mount_returning)
  show ?thesis
    using initializeAuth_verification_fails [OF t x, of JSON_parse]
    by (simp add: mount_returning)
qed

section \<open>Infinite scroll\<close>

text \<open>
  C10. \<^verbatim>\<open>infiniteScrollRequest(endpoint, page, limit, params)\<close> returns what
  \<^verbatim>\<open>paginatedRequest(endpoint, { page, limit, ...params })\<close> returns, with \<open>limit\<close> 20 and
  \<open>params\<close> the empty object when they are omitted. (An argument passed as \<^verbatim>\<open>undefined\<close> counts
  as omitted in JavaScript, hence the premise.)
\<close>

theorem infiniteScrollRequest_refines_spec:
  "limit \<noteq> Some JUndefined \<Longrightarrow>
   infiniteScrollRequest net endpoint page (passed limit) (passed (map_option JObj ps)) w =
   infiniteScrollRequest_spec net endpoint page limit ps w"
  by (cases limit; cases ps)
     (simp_all add: infiniteScrollRequest_def infiniteScrollRequest_spec_def default_param_def
        spread_def Let_def)

theorem infiniteScrollRequest_refines_spec_witness:
  "infiniteScrollRequest server_listing ''/requests'' (JNum 1) JUndefined JUndefined fresh_browser =
     infiniteScrollRequest_spec server_listing ''/requests'' (JNum 1) None None fresh_browser \<and>
   sent (snd (infiniteScrollRequest server_listing ''/requests'' (JNum 1) JUndefined JUndefined
                fresh_browser)) =
     [ApiCall \<lparr>http_method = ''get'', url = ''/requests'',
        params = JObj [(''page'', JNum 1), (''limit'', JNum 20)], body = JUndefined,
        Authorization = None, retry = False\<rparr>] \<and>
   infiniteScrollRequest server_listing ''/requests'' (JNum 2) (JNum 50)
       (JObj [(''status'', JStr ''OPEN''), (''limit'', JNum 5)]) fresh_browser =
     infiniteScrollRequest_spec server_listing ''/requests'' (JNum 2) (Some (JNum 50))
       (Some [(''status'', JStr ''OPEN''), (''limit'', JNum 5)]) fresh_browser \<and>
   sent (snd (infiniteScrollRequest server_listing ''/requests'' (JNum 2) (JNum 50)
       (JObj [(''status'', JStr ''OPEN''), (''limit'', JNum 5)]) fresh_browser)) =
     [ApiCall \<lparr>http_method = ''get'', url = ''/requests'',
        params = JObj [(''page'', JNum 2), (''limit'', JNum 5), (''status'', JStr ''OPEN'')],
        body = JUndefined, Authorization = None, retry = False\<rparr>]"
  using infiniteScrollRequest_refines_spec
          [where net = server_listing and endpoint = "''/requests''" and page = "JNum 1"
             and limit = None and ps = None and w = fresh_browser]
        infiniteScrollRequest_refines_spec
          [where net = server_listing and endpoint = "''/requests''" and page = "JNum 2"
             and limit = "Some (JNum 50)"
             and ps = "Some [(''status'', JStr ''OPEN''), (''limit'', JNum 5)]"
             and w = fresh_browser]
  by (simp add: infiniteScrollRequest_spec_def paginatedRequest_def default_param_def
        api_get_listing_params example_page_def Let_def)

end
